theory Spec2Isabelle
  imports Main
begin

section \<open>Data model (types.ts)\<close>

text \<open>
  JavaScript strings are modelled as \<open>string\<close>; code units above 255 are outside the
  type \<open>char\<close>. A \<open>Blob\<close> is its reported MIME type and its bytes, a \<open>File\<close> adds
  a name. \<open>new File([blob], filename, {type})\<close> keeps the bytes of the blob.
\<close>

record WardrobeItem =
  item_id :: string
  item_name :: string
  item_url :: string

record SavedLook =
  look_id :: string
  look_name :: string
  look_url :: string
  createdAt :: int
  garmentColors :: "string list option"

record Blob =
  blob_type :: string
  blob_bytes :: "nat list"

record File =
  file_name :: string
  file_type :: string
  file_bytes :: "nat list"

section \<open>Image acquisition: urlToFile\<close>

text \<open>
  What the browser delivers for an \<open>Image\<close> whose \<open>src\<close> was set: the load event (with
  the natural width and height), the error event (with its string form, which the source
  interpolates into the message), or no event at all (a load that never completes).
\<close>

datatype image_event = OnLoad nat nat | OnError string | NoEvent

text \<open>A call on the canvas returns a value or throws.\<close>

datatype 'a dom_result = Throws | Returns 'a

text \<open>
  The browser, as far as the panel uses it: the outcome of loading a URL; for a canvas of
  the given size, whether \<open>getContext('2d')\<close> yields a context (\<open>Returns False\<close> is
  \<open>null\<close>); whether \<open>drawImage\<close> returns; what \<open>canvas.toBlob\<close> passes to its callback
  (\<open>Returns None\<close> is \<open>null\<close>) for the image drawn, the canvas size and the requested
  type; and the string \<open>URL.createObjectURL\<close> returns for a file. Each of the three canvas
  calls may throw instead.
\<close>

record Browser =
  load_image :: "string \<Rightarrow> image_event"
  getContext_2d :: "nat \<Rightarrow> nat \<Rightarrow> bool dom_result"
  drawImage :: "string \<Rightarrow> nat \<Rightarrow> nat \<Rightarrow> unit dom_result"
  toBlob :: "string \<Rightarrow> nat \<Rightarrow> nat \<Rightarrow> string \<Rightarrow> Blob option dom_result"
  createObjectURL :: "File \<Rightarrow> string"

text \<open>The calls urlToFile makes on the DOM, in the order it makes them.\<close>

datatype dom_call =
    SetCrossOrigin string
  | SetSrc string
  | CreateCanvas
  | SetCanvasSize nat nat
  | GetContext string
  | DrawImage nat nat
  | ToBlob string

text \<open>A promise is pending, resolved with a value, or rejected with an Error's message.\<close>

datatype 'a promise = Pending | Resolved 'a | Rejected string

text \<open>
  urlToFile: the promise settles in the handlers \<open>onload\<close> and \<open>onerror\<close> only. The
  \<open>onload\<close> handler has no \<open>try\<close>: when a canvas call throws in it, the exception leaves
  the handler and the promise is never settled.
\<close>

definition urlToFile :: "Browser \<Rightarrow> string \<Rightarrow> string \<Rightarrow> dom_call list \<times> File promise" where
  "urlToFile br url filename =
     (let pre = [SetCrossOrigin ''anonymous'', SetSrc url] in
      case load_image br url of
        NoEvent \<Rightarrow> (pre, Pending)
      | OnError e \<Rightarrow>
          (pre, Rejected (''Could not load image from URL for canvas conversion. Error: '' @ e))
      | OnLoad w h \<Rightarrow>
          (let canvas = pre @ [CreateCanvas, SetCanvasSize w h, GetContext ''2d''] in
           case getContext_2d br w h of
             Throws \<Rightarrow> (canvas, Pending)
           | Returns ctx \<Rightarrow>
               if \<not> ctx then (canvas, Rejected ''Could not get canvas context.'')
               else
                 (case drawImage br url w h of
                    Throws \<Rightarrow> (canvas @ [DrawImage 0 0], Pending)
                  | Returns u \<Rightarrow>
                      (let drawn = canvas @ [DrawImage 0 0, ToBlob ''image/png''] in
                       case toBlob br url w h ''image/png'' of
                         Throws \<Rightarrow> (drawn, Pending)
                       | Returns None \<Rightarrow> (drawn, Rejected ''Canvas toBlob failed.'')
                       | Returns (Some blob) \<Rightarrow>
                           (let mimeType =
                                  (if blob_type blob \<noteq> [] then blob_type blob else ''image/png'')
                            in (drawn, Resolved \<lparr>file_name = filename, file_type = mimeType,
                                                  file_bytes = blob_bytes blob\<rparr>))))))"

section \<open>The panel: props, state, effects\<close>

record Props =
  activeGarmentIds :: "string list"
  isLoading :: bool
  wardrobe :: "WardrobeItem list"
  savedLooks :: "SavedLook list"
  displayImageUrl :: "string option"

datatype tab = Garments | Looks

record Panel =
  error :: "string option"
  activeTab :: tab
  isSaveModalOpen :: bool
  newLookName :: string
  selectedGarmentForColor :: "WardrobeItem option"
  selectedColor :: string
  pendingFile :: "File option"

text \<open>The initial values of the seven useState hooks.\<close>

definition initial_panel :: Panel where
  "initial_panel =
     \<lparr>error = None, activeTab = Garments, isSaveModalOpen = False, newLookName = [],
      selectedGarmentForColor = None, selectedColor = ''Original'', pendingFile = None\<rparr>"

text \<open>
  Everything a handler does besides setting panel state: the four callbacks of the props,
  the start of an acquisition, and the browser calls of the handlers.
\<close>

datatype effect =
    OnGarmentSelect File WardrobeItem string
  | OnSaveLook string
  | OnDeleteLook string
  | OnSelectLook SavedLook
  | StartUrlToFile string string
  | CreateObjectURL File
  | ConsoleError string string
  | PreventDefault

fun is_callback :: "effect \<Rightarrow> bool" where
  "is_callback (OnGarmentSelect f i c) = True"
| "is_callback (OnSaveLook n) = True"
| "is_callback (OnDeleteLook i) = True"
| "is_callback (OnSelectLook l) = True"
| "is_callback e = False"

fun is_acquisition :: "effect \<Rightarrow> bool" where
  "is_acquisition (StartUrlToFile u n) = True"
| "is_acquisition e = False"

record Swatch =
  swatch_name :: string
  swatch_hex :: string

definition COLORS :: "Swatch list" where
  "COLORS =
     [\<lparr>swatch_name = ''Original'', swatch_hex = ''transparent''\<rparr>,
      \<lparr>swatch_name = ''Black'', swatch_hex = ''#000000''\<rparr>,
      \<lparr>swatch_name = ''White'', swatch_hex = ''#FFFFFF''\<rparr>,
      \<lparr>swatch_name = ''Gray'', swatch_hex = ''#808080''\<rparr>,
      \<lparr>swatch_name = ''Red'', swatch_hex = ''#EF4444''\<rparr>,
      \<lparr>swatch_name = ''Blue'', swatch_hex = ''#3B82F6''\<rparr>,
      \<lparr>swatch_name = ''Green'', swatch_hex = ''#22C55E''\<rparr>,
      \<lparr>swatch_name = ''Yellow'', swatch_hex = ''#EAB308''\<rparr>,
      \<lparr>swatch_name = ''Purple'', swatch_hex = ''#A855F7''\<rparr>,
      \<lparr>swatch_name = ''Pink'', swatch_hex = ''#EC4899''\<rparr>,
      \<lparr>swatch_name = ''Orange'', swatch_hex = ''#F97316''\<rparr>,
      \<lparr>swatch_name = ''Brown'', swatch_hex = ''#78350F''\<rparr>]"

section \<open>String helpers of the handlers\<close>

text \<open>
  \<open>String.prototype.trim\<close> removes white space and line terminators from both ends.
  Within \<open>char\<close> these are the code units 9 to 13, 32 and 160.
\<close>

definition js_whitespace :: "char \<Rightarrow> bool" where
  "js_whitespace c = (of_char c \<in> {9, 10, 11, 12, 13, 32, 160 :: nat})"

definition trim :: "string \<Rightarrow> string" where
  "trim s = rev (dropWhile js_whitespace (rev (dropWhile js_whitespace s)))"

definition startsWith :: "string \<Rightarrow> string \<Rightarrow> bool" where
  "startsWith s p = (take (length p) s = p)"

text \<open>The decimal form a template literal gives an integral number.\<close>

definition digit_char :: "nat \<Rightarrow> char" where
  "digit_char n = ''0123456789'' ! n"

fun show_nat :: "nat \<Rightarrow> string" where
  "show_nat n = (if n < 10 then [digit_char n] else show_nat (n div 10) @ [digit_char (n mod 10)])"

definition show_int :: "int \<Rightarrow> string" where
  "show_int i = (if i < 0 then CHR ''-'' # show_nat (nat (- i)) else show_nat (nat i))"

section \<open>The handlers of WardrobePanel\<close>

text \<open>
  handleGarmentClick up to its \<open>await\<close>: the guard, \<open>setError(null)\<close> and the start of
  the acquisition. The third component is the promise the handler awaits (\<open>None\<close> when
  the guard returned).
\<close>

definition handleGarmentClick ::
  "Browser \<Rightarrow> Props \<Rightarrow> Panel \<Rightarrow> WardrobeItem \<Rightarrow> Panel \<times> effect list \<times> File promise option" where
  "handleGarmentClick br props s item =
     (if isLoading props \<or> item_id item \<in> set (activeGarmentIds props) then (s, [], None)
      else (s\<lparr>error := None\<rparr>,
            [StartUrlToFile (item_url item) (item_name item)],
            Some (snd (urlToFile br (item_url item) (item_name item)))))"

text \<open>
  handleGarmentClick after its \<open>await\<close>: the \<open>try\<close> branch when the promise resolved, the
  \<open>catch\<close> branch when it rejected. A pending promise does not resume the handler.
\<close>

definition handleGarmentClick_resume ::
  "Panel \<Rightarrow> WardrobeItem \<Rightarrow> File promise \<Rightarrow> Panel \<times> effect list" where
  "handleGarmentClick_resume s item p =
     (case p of
        Pending \<Rightarrow> (s, [])
      | Resolved file \<Rightarrow>
          (s\<lparr>pendingFile := Some file, selectedGarmentForColor := Some item,
             selectedColor := ''Original''\<rparr>, [])
      | Rejected err \<Rightarrow>
          (s\<lparr>error := Some ''Failed to load wardrobe item. This is often a CORS issue. Check the developer console for details.''\<rparr>,
           [ConsoleError
              (''[CORS Check] Failed to load and convert wardrobe item from URL: '' @ item_url item @ ''.'')
              err]))"

text \<open>
  A handler is created by a render and reads the state of that render (its closure),
  while the setters it calls act on the state at the time of the call. For the handlers
  that read state, the first argument \<open>c\<close> is the state of the render the handler
  belongs to and \<open>s\<close> is the state when it runs. For a view that is rendered from the
  current state the two are the same.
\<close>

definition handleApplyGarment :: "Panel \<Rightarrow> Panel \<Rightarrow> Panel \<times> effect list" where
  "handleApplyGarment c s =
     (case (pendingFile c, selectedGarmentForColor c) of
        (Some f, Some i) \<Rightarrow>
          (s\<lparr>pendingFile := None, selectedGarmentForColor := None, selectedColor := ''Original''\<rparr>,
           [OnGarmentSelect f i (selectedColor c)])
      | _ \<Rightarrow> (s, []))"

definition handleCancelColorSelection :: "Panel \<Rightarrow> Panel \<times> effect list" where
  "handleCancelColorSelection s = (s\<lparr>pendingFile := None, selectedGarmentForColor := None\<rparr>, [])"

text \<open>
  handleFileChange: \<open>files\<close> is \<open>e.target.files\<close> (\<open>None\<close> is \<open>null\<close>), \<open>now\<close> is what
  \<open>Date.now()\<close> returns.
\<close>

definition handleFileChange ::
  "Browser \<Rightarrow> int \<Rightarrow> Panel \<Rightarrow> File list option \<Rightarrow> Panel \<times> effect list" where
  "handleFileChange br now s files =
     (case files of
        Some (file # rest) \<Rightarrow>
          (if \<not> startsWith (file_type file) ''image/''
           then (s\<lparr>error := Some ''Please select an image file.''\<rparr>, [])
           else
             (let customGarmentInfo =
                    \<lparr>item_id = ''custom-'' @ show_int now, item_name = file_name file,
                     item_url = createObjectURL br file\<rparr>
              in (s\<lparr>pendingFile := Some file, selectedGarmentForColor := Some customGarmentInfo,
                    selectedColor := ''Original''\<rparr>,
                  [CreateObjectURL file])))
      | _ \<Rightarrow> (s, []))"

definition handleSaveSubmit :: "Panel \<Rightarrow> Panel \<Rightarrow> Panel \<times> effect list" where
  "handleSaveSubmit c s =
     (if trim (newLookName c) \<noteq> []
      then (s\<lparr>newLookName := [], isSaveModalOpen := False, activeTab := Looks\<rparr>,
            [PreventDefault, OnSaveLook (trim (newLookName c))])
      else (s, [PreventDefault]))"

section \<open>What the component renders\<close>

text \<open>
  The conditions of the JSX. The color sub-view and the save modal are children of an
  \<open>AnimatePresence\<close> and have an \<open>exit\<close> animation: the condition
  \<open>selectedGarmentForColor &&\<close> (\<open>isSaveModalOpen &&\<close>) says that the child is present in
  the current render; when it becomes false the child stays mounted, as it was last
  rendered, until its exit animation has completed (see \<open>System\<close> below). The error
  paragraph is rendered when \<open>error\<close> is truthy; the submit button is disabled while the
  trimmed name is empty, the save-current-look button while loading or without a display
  image.
\<close>

definition color_view_present :: "Panel \<Rightarrow> bool" where
  "color_view_present s = (selectedGarmentForColor s \<noteq> None)"

definition error_displayed :: "Panel \<Rightarrow> bool" where
  "error_displayed s = (case error s of None \<Rightarrow> False | Some m \<Rightarrow> m \<noteq> [])"

definition submit_disabled :: "Panel \<Rightarrow> bool" where
  "submit_disabled s = (trim (newLookName s) = [])"

definition save_button_disabled :: "Props \<Rightarrow> bool" where
  "save_button_disabled p =
     (isLoading p \<or> (case displayImageUrl p of None \<Rightarrow> True | Some u \<Rightarrow> u = []))"

text \<open>The in-flight tuple of the panel: present when both the file and the item are set.\<close>

definition pending_tuple :: "Panel \<Rightarrow> (File \<times> WardrobeItem \<times> string) option" where
  "pending_tuple s =
     (case (pendingFile s, selectedGarmentForColor s) of
        (Some f, Some i) \<Rightarrow> Some (f, i, selectedColor s)
      | _ \<Rightarrow> None)"

section \<open>The panel as an event-driven system\<close>

text \<open>
  The system is the panel state, the current props (owned by the parent), the
  acquisitions in flight (each a handleGarmentClick suspended at its \<open>await\<close>, with the
  item it was called for and the promise it awaits) and, for each of the two animated
  views, the render it is exiting with: \<open>Some c\<close> while the view is no longer present but
  its exit animation has not completed, where \<open>c\<close> is the state of the last render in
  which it was present. The exiting view keeps the elements and the handlers of that
  render.
\<close>

record System =
  panel :: Panel
  props :: Props
  inflight :: "(WardrobeItem \<times> File promise) list"
  color_view_exiting :: "Panel option"
  save_modal_exiting :: "Panel option"

definition initial_system :: "Props \<Rightarrow> System" where
  "initial_system p =
     \<lparr>panel = initial_panel, props = p, inflight = [],
      color_view_exiting = None, save_modal_exiting = None\<rparr>"

text \<open>
  The render whose elements and handlers the mounted view has: the current one when the
  view is present, the one it is exiting with otherwise; \<open>None\<close> when it is not mounted.
\<close>

definition color_view_closure :: "System \<Rightarrow> Panel option" where
  "color_view_closure sys =
     (if color_view_present (panel sys) then Some (panel sys) else color_view_exiting sys)"

definition save_modal_closure :: "System \<Rightarrow> Panel option" where
  "save_modal_closure sys =
     (if isSaveModalOpen (panel sys) then Some (panel sys) else save_modal_exiting sys)"

definition color_view_mounted :: "System \<Rightarrow> bool" where
  "color_view_mounted sys = (color_view_closure sys \<noteq> None)"

definition save_modal_mounted :: "System \<Rightarrow> bool" where
  "save_modal_mounted sys = (save_modal_closure sys \<noteq> None)"

datatype event =
    GarmentClick WardrobeItem
  | AcquisitionSettles nat
  | FileChange "File list option" int
  | SwatchClick Swatch
  | ApplyClick
  | CancelClick
  | TabClick tab
  | SaveCurrentLookClick
  | SaveModalClose
  | LookNameInput string
  | SaveSubmit
  | WearClick SavedLook
  | DeleteClick SavedLook
  | PropsChange Props
  | ColorViewExitComplete
  | SaveModalExitComplete

text \<open>
  What the handler of one event does. A user event on an element that is not mounted, or
  that is disabled, does nothing. An element of an animated view acts with the handlers of
  the render the view has (\<open>color_view_closure\<close>, \<open>save_modal_closure\<close>).
  \<open>AcquisitionSettles k\<close> resumes the k-th suspended handleGarmentClick when its promise
  has settled; a pending one stays in flight. The two last events are the completion of an
  exit animation.
\<close>

fun handle :: "Browser \<Rightarrow> System \<Rightarrow> event \<Rightarrow> System \<times> effect list" where
  "handle br sys (GarmentClick item) =
     (if activeTab (panel sys) = Garments \<and> item \<in> set (wardrobe (props sys))
      then (case handleGarmentClick br (props sys) (panel sys) item of
              (s', effs, awaited) \<Rightarrow>
                (sys\<lparr>panel := s',
                     inflight := inflight sys @ (case awaited of None \<Rightarrow> [] | Some p \<Rightarrow> [(item, p)])\<rparr>,
                 effs))
      else (sys, []))"
| "handle br sys (AcquisitionSettles k) =
     (if k < length (inflight sys)
      then (case inflight sys ! k of
              (item, p) \<Rightarrow>
                (if p = Pending then (sys, [])
                 else (case handleGarmentClick_resume (panel sys) item p of
                         (s', effs) \<Rightarrow>
                           (sys\<lparr>panel := s',
                                inflight := take k (inflight sys) @ drop (Suc k) (inflight sys)\<rparr>,
                            effs))))
      else (sys, []))"
| "handle br sys (FileChange files now) =
     (if activeTab (panel sys) = Garments \<and> \<not> isLoading (props sys)
      then (case handleFileChange br now (panel sys) files of
              (s', effs) \<Rightarrow> (sys\<lparr>panel := s'\<rparr>, effs))
      else (sys, []))"
| "handle br sys (SwatchClick color) =
     (if color_view_mounted sys \<and> color \<in> set COLORS
      then (sys\<lparr>panel := (panel sys)\<lparr>selectedColor := swatch_name color\<rparr>\<rparr>, [])
      else (sys, []))"
| "handle br sys ApplyClick =
     (case color_view_closure sys of
        None \<Rightarrow> (sys, [])
      | Some c \<Rightarrow>
          (case handleApplyGarment c (panel sys) of (s', effs) \<Rightarrow> (sys\<lparr>panel := s'\<rparr>, effs)))"
| "handle br sys CancelClick =
     (if color_view_mounted sys
      then (case handleCancelColorSelection (panel sys) of (s', effs) \<Rightarrow> (sys\<lparr>panel := s'\<rparr>, effs))
      else (sys, []))"
| "handle br sys (TabClick t) = (sys\<lparr>panel := (panel sys)\<lparr>activeTab := t\<rparr>\<rparr>, [])"
| "handle br sys SaveCurrentLookClick =
     (if activeTab (panel sys) = Looks \<and> \<not> save_button_disabled (props sys)
      then (sys\<lparr>panel := (panel sys)\<lparr>isSaveModalOpen := True\<rparr>\<rparr>, [])
      else (sys, []))"
| "handle br sys SaveModalClose =
     (if save_modal_mounted sys
      then (sys\<lparr>panel := (panel sys)\<lparr>isSaveModalOpen := False\<rparr>\<rparr>, [])
      else (sys, []))"
| "handle br sys (LookNameInput v) =
     (if save_modal_mounted sys
      then (sys\<lparr>panel := (panel sys)\<lparr>newLookName := v\<rparr>\<rparr>, [])
      else (sys, []))"
| "handle br sys SaveSubmit =
     (case save_modal_closure sys of
        None \<Rightarrow> (sys, [])
      | Some c \<Rightarrow>
          (if submit_disabled c then (sys, [])
           else (case handleSaveSubmit c (panel sys) of (s', effs) \<Rightarrow> (sys\<lparr>panel := s'\<rparr>, effs))))"
| "handle br sys (WearClick look) =
     (if activeTab (panel sys) = Looks \<and> look \<in> set (savedLooks (props sys))
      then (sys, [OnSelectLook look])
      else (sys, []))"
| "handle br sys (DeleteClick look) =
     (if activeTab (panel sys) = Looks \<and> look \<in> set (savedLooks (props sys))
      then (sys, [OnDeleteLook (look_id look)])
      else (sys, []))"
| "handle br sys (PropsChange p) = (sys\<lparr>props := p\<rparr>, [])"
| "handle br sys ColorViewExitComplete = (sys\<lparr>color_view_exiting := None\<rparr>, [])"
| "handle br sys SaveModalExitComplete = (sys\<lparr>save_modal_exiting := None\<rparr>, [])"

text \<open>
  The render after an event. A view that was present in the render before the event and is
  not present after it starts exiting with that last render; a view that becomes present
  is rendered anew, which ends an exit in progress; otherwise nothing changes.
\<close>

definition presence :: "bool \<Rightarrow> bool \<Rightarrow> Panel \<Rightarrow> Panel option \<Rightarrow> Panel option" where
  "presence was now last_render exiting =
     (if was \<and> \<not> now then Some last_render
      else if \<not> was \<and> now then None
      else exiting)"

definition commit :: "System \<Rightarrow> System \<Rightarrow> System" where
  "commit before after =
     after\<lparr>color_view_exiting :=
              presence (color_view_present (panel before)) (color_view_present (panel after))
                (panel before) (color_view_exiting after),
           save_modal_exiting :=
              presence (isSaveModalOpen (panel before)) (isSaveModalOpen (panel after))
                (panel before) (save_modal_exiting after)\<rparr>"

definition step :: "Browser \<Rightarrow> System \<Rightarrow> event \<Rightarrow> System \<times> effect list" where
  "step br sys ev = (case handle br sys ev of (sys', effs) \<Rightarrow> (commit sys sys', effs))"

text \<open>A sequence of events, with the effects of all of them in order.\<close>

fun run :: "Browser \<Rightarrow> System \<Rightarrow> event list \<Rightarrow> System \<times> effect list" where
  "run br sys [] = (sys, [])"
| "run br sys (ev # evs) =
     (case step br sys ev of
        (sys', effs) \<Rightarrow> (case run br sys' evs of (sys'', effs') \<Rightarrow> (sys'', effs @ effs')))"

section \<open>Concrete inputs\<close>

definition shirt :: WardrobeItem where
  "shirt = \<lparr>item_id = ''g1'', item_name = ''Shirt'', item_url = ''ok.png''\<rparr>"

definition jacket :: WardrobeItem where
  "jacket = \<lparr>item_id = ''g2'', item_name = ''Jacket'', item_url = ''ok2.png''\<rparr>"

definition png_file :: File where
  "png_file = \<lparr>file_name = ''hat.png'', file_type = ''image/png'', file_bytes = [137, 80]\<rparr>"

definition txt_file :: File where
  "txt_file = \<lparr>file_name = ''notes.txt'', file_type = ''text/plain'', file_bytes = [104, 105]\<rparr>"

text \<open>
  A browser that loads \<open>ok.png\<close> and \<open>ok2.png\<close>, fails to decode \<open>bad.png\<close>, has no
  context for an image without width, cannot encode \<open>wide.png\<close>, throws when it draws
  \<open>broken.png\<close> and when it encodes \<open>tainted.png\<close>, and never completes the load of any
  other URL.
\<close>

definition demo_browser :: Browser where
  "demo_browser =
     \<lparr>load_image = (\<lambda>u. if u = ''ok.png'' then OnLoad 2 3
                         else if u = ''ok2.png'' then OnLoad 4 4
                         else if u = ''empty.svg'' then OnLoad 0 0
                         else if u = ''wide.png'' then OnLoad 9 1
                         else if u = ''broken.png'' then OnLoad 5 5
                         else if u = ''tainted.png'' then OnLoad 6 6
                         else if u = ''bad.png'' then OnError ''[object Event]''
                         else NoEvent),
      getContext_2d = (\<lambda>w h. Returns (0 < w)),
      drawImage = (\<lambda>u w h. if u = ''broken.png'' then Throws else Returns ()),
      toBlob = (\<lambda>u w h t. if u = ''tainted.png'' then Throws
                           else if w < 9
                           then Returns (Some \<lparr>blob_type = (if w = 4 then [] else t),
                                                blob_bytes = [w, h]\<rparr>)
                           else Returns None),
      createObjectURL = (\<lambda>f. ''blob:'' @ file_name f)\<rparr>"

definition coat :: WardrobeItem where
  "coat = \<lparr>item_id = ''g9'', item_name = ''Coat'', item_url = ''ok.png''\<rparr>"

definition demo_props :: Props where
  "demo_props =
     \<lparr>activeGarmentIds = [''g9''], isLoading = False, wardrobe = [shirt, jacket, coat],
      savedLooks = [], displayImageUrl = Some ''model.png''\<rparr>"

text \<open>The files the demo browser produces for the shirt and the jacket.\<close>

definition shirt_file :: File where
  "shirt_file = \<lparr>file_name = ''Shirt'', file_type = ''image/png'', file_bytes = [2, 3]\<rparr>"

definition jacket_file :: File where
  "jacket_file = \<lparr>file_name = ''Jacket'', file_type = ''image/png'', file_bytes = [4, 4]\<rparr>"

definition red :: Swatch where
  "red = \<lparr>swatch_name = ''Red'', swatch_hex = ''#EF4444''\<rparr>"

text \<open>The system after a click on the shirt, its acquisition and a click on the red swatch.\<close>

definition demo_picking :: System where
  "demo_picking =
     fst (run demo_browser (initial_system demo_props)
            [GarmentClick shirt, AcquisitionSettles 0, SwatchClick red])"

text \<open>The save dialog open on the looks tab, with a name and with a blank name.\<close>

definition demo_save_dialog :: System where
  "demo_save_dialog =
     \<lparr>panel = initial_panel\<lparr>activeTab := Looks, isSaveModalOpen := True,
                                newLookName := '' Summer Vibes ''\<rparr>,
      props = demo_props, inflight = [], color_view_exiting = None, save_modal_exiting = None\<rparr>"

definition demo_blank_dialog :: System where
  "demo_blank_dialog =
     \<lparr>panel = initial_panel\<lparr>activeTab := Looks, isSaveModalOpen := True,
                                newLookName := [CHR '' '', CHR 0x09, CHR 0xA0]\<rparr>,
      props = demo_props, inflight = [], color_view_exiting = None, save_modal_exiting = None\<rparr>"

text \<open>The system after a text file was chosen for the custom upload.\<close>

definition demo_rejected :: System where
  "demo_rejected =
     fst (step demo_browser (initial_system demo_props) (FileChange (Some [txt_file]) 5))"

text \<open>The system after Cancel in the color sub-view, and after Apply.\<close>

definition demo_cancelled :: System where
  "demo_cancelled = fst (step demo_browser demo_picking CancelClick)"

definition demo_applied :: System where
  "demo_applied = fst (step demo_browser demo_picking ApplyClick)"

text \<open>The system after the name was submitted in the save dialog.\<close>

definition demo_saved :: System where
  "demo_saved = fst (step demo_browser demo_save_dialog SaveSubmit)"

section \<open>Invariant of the exiting views\<close>

text \<open>
  A view that is present is not exiting, and a view exits with a render in which it was
  present; for the color sub-view such a render has both the file and the item.
\<close>

definition exits_consistent :: "System \<Rightarrow> bool" where
  "exits_consistent sys =
     ((pendingFile (panel sys) = None) = (selectedGarmentForColor (panel sys) = None)
    \<and> (color_view_present (panel sys) \<longrightarrow> color_view_exiting sys = None)
    \<and> (case color_view_exiting sys of
          None \<Rightarrow> True
        | Some r \<Rightarrow> pendingFile r \<noteq> None \<and> selectedGarmentForColor r \<noteq> None)
    \<and> (isSaveModalOpen (panel sys) \<longrightarrow> save_modal_exiting sys = None)
    \<and> (case save_modal_exiting sys of None \<Rightarrow> True | Some r \<Rightarrow> isSaveModalOpen r))"

section \<open>Runs and invariants of the panel\<close>

lemmas handler_defs =
  handleGarmentClick_def handleGarmentClick_resume_def handleFileChange_def
  handleApplyGarment_def handleCancelColorSelection_def handleSaveSubmit_def

lemmas view_defs =
  step_def commit_def presence_def color_view_closure_def save_modal_closure_def
  color_view_mounted_def save_modal_mounted_def color_view_present_def

lemma fst_run_Cons: "fst (run br sys (ev # evs)) = fst (run br (fst (step br sys ev)) evs)"
  by (simp add: case_prod_unfold)

lemma run_snoc:
  "fst (run br sys (evs @ [ev])) = fst (step br (fst (run br sys evs)) ev)"
proof (induction evs arbitrary: sys)
  case Nil
  show ?case by (simp add: case_prod_unfold)
next
  case (Cons e evs)
  show ?case unfolding append_Cons fst_run_Cons by (rule Cons.IH)
qed

lemma panel_step: "panel (fst (step br sys ev)) = panel (fst (handle br sys ev))"
  by (simp add: step_def commit_def case_prod_unfold)

lemma snd_step: "snd (step br sys ev) = snd (handle br sys ev)"
  by (simp add: step_def case_prod_unfold)

lemma pending_inv_handle:
  "(pendingFile (panel sys) = None) = (selectedGarmentForColor (panel sys) = None) \<Longrightarrow>
   (pendingFile (panel (fst (handle br sys ev))) = None) =
     (selectedGarmentForColor (panel (fst (handle br sys ev))) = None)"
  by (cases ev)
     (auto simp: handler_defs Let_def
        split: prod.splits option.splits list.splits promise.splits if_splits)

lemma pending_inv_step:
  "(pendingFile (panel sys) = None) = (selectedGarmentForColor (panel sys) = None) \<Longrightarrow>
   (pendingFile (panel (fst (step br sys ev))) = None) =
     (selectedGarmentForColor (panel (fst (step br sys ev))) = None)"
  unfolding panel_step by (rule pending_inv_handle)

lemma pending_inv_run:
  "(pendingFile (panel (fst (run br (initial_system p0) evs))) = None) =
   (selectedGarmentForColor (panel (fst (run br (initial_system p0) evs))) = None)"
proof (induction evs rule: rev_induct)
  case Nil
  show ?case by (simp add: initial_system_def initial_panel_def)
next
  case (snoc ev evs)
  show ?case unfolding run_snoc by (rule pending_inv_step) (rule snoc.IH)
qed

lemma handle_exiting:
  "color_view_exiting (fst (handle br sys ev)) = color_view_exiting sys
     \<or> color_view_exiting (fst (handle br sys ev)) = None"
  "save_modal_exiting (fst (handle br sys ev)) = save_modal_exiting sys
     \<or> save_modal_exiting (fst (handle br sys ev)) = None"
  by (cases ev; simp add: case_prod_unfold split: option.splits if_splits)+

lemma exits_consistent_step:
  assumes "exits_consistent sys"
  shows "exits_consistent (fst (step br sys ev))"
proof -
  define h where "h = fst (handle br sys ev)"
  have p: "(pendingFile (panel h) = None) = (selectedGarmentForColor (panel h) = None)"
    unfolding h_def using assms by (intro pending_inv_handle) (simp add: exits_consistent_def)
  have c: "color_view_exiting h = color_view_exiting sys \<or> color_view_exiting h = None"
    and m: "save_modal_exiting h = save_modal_exiting sys \<or> save_modal_exiting h = None"
    unfolding h_def by (rule handle_exiting)+
  have s: "fst (step br sys ev) = commit sys h"
    by (simp add: step_def h_def case_prod_unfold)
  show ?thesis
    unfolding s using assms p c m
    by (auto simp: exits_consistent_def commit_def presence_def color_view_present_def
          split: option.splits)
qed

lemma exits_consistent_run: "exits_consistent (fst (run br (initial_system p0) evs))"
proof (induction evs rule: rev_induct)
  case Nil
  show ?case by (simp add: exits_consistent_def initial_system_def initial_panel_def
        color_view_present_def)
next
  case (snoc ev evs)
  show ?case unfolding run_snoc by (rule exits_consistent_step) (rule snoc.IH)
qed

lemma swatch_inv_step:
  assumes "selectedColor (panel sys) \<in> set (map swatch_name COLORS)"
  shows "selectedColor (panel (fst (step br sys ev))) \<in> set (map swatch_name COLORS)"
proof -
  have o: "''Original'' \<in> set (map swatch_name COLORS)" by (simp add: COLORS_def)
  show ?thesis
    unfolding panel_step using assms o
    by (cases ev)
       (auto simp: handler_defs Let_def
          split: prod.splits option.splits list.splits promise.splits if_splits)
qed

lemma swatch_inv_run:
  "selectedColor (panel (fst (run br (initial_system p0) evs))) \<in> set (map swatch_name COLORS)"
proof (induction evs rule: rev_induct)
  case Nil
  show ?case by (simp add: initial_system_def initial_panel_def COLORS_def)
next
  case (snoc ev evs)
  show ?case unfolding run_snoc by (rule swatch_inv_step) (rule snoc.IH)
qed

lemma entry_resets_color:
  assumes "\<not> color_view_present (panel sys)"
    and "color_view_present (panel (fst (step br sys ev)))"
  shows "selectedColor (panel (fst (step br sys ev))) = ''Original''"
  using assms unfolding panel_step
  by (cases ev)
     (auto simp: handler_defs Let_def color_view_present_def
        split: prod.splits option.splits list.splits promise.splits if_splits)

lemma COLORS_names:
  "map swatch_name COLORS =
     [''Original'', ''Black'', ''White'', ''Gray'', ''Red'', ''Blue'', ''Green'', ''Yellow'',
      ''Purple'', ''Pink'', ''Orange'', ''Brown'']"
  by (simp add: COLORS_def)

text \<open>
  Claim C1. In every state that holds a pending file \<open>f\<close>, a candidate item \<open>i\<close> and a
  selected color \<open>c\<close>, Confirm (handleApplyGarment of the current render, and the click on
  the Apply button of the color sub-view) has exactly one effect, the call
  \<open>onGarmentSelect(f, i, c)\<close>, and leaves the panel with the pending file and the
  candidate item cleared and the color reset to Original: the color sub-view is no longer
  present and starts to exit. After any sequence of events from the initial panel the
  selected color is the name of one of the twelve swatches of \<open>COLORS\<close>; that every entry
  into the color sub-view resets it to Original is \<open>entry_resets_color\<close>.
\<close>
theorem confirm_applies_once:
  assumes "pendingFile (panel sys) = Some f"
    and "selectedGarmentForColor (panel sys) = Some i"
    and "selectedColor (panel sys) = c"
  shows "handleApplyGarment (panel sys) (panel sys) =
           ((panel sys)\<lparr>pendingFile := None, selectedGarmentForColor := None,
                        selectedColor := ''Original''\<rparr>,
            [OnGarmentSelect f i c])
       \<and> step br sys ApplyClick =
           (sys\<lparr>panel := (panel sys)\<lparr>pendingFile := None, selectedGarmentForColor := None,
                                      selectedColor := ''Original''\<rparr>,
                color_view_exiting := Some (panel sys)\<rparr>,
            [OnGarmentSelect f i c])
       \<and> \<not> color_view_present (panel (fst (step br sys ApplyClick)))
       \<and> pending_tuple (panel (fst (step br sys ApplyClick))) = None
       \<and> (sys = fst (run br (initial_system p0) evs) \<longrightarrow> c \<in> set (map swatch_name COLORS))
       \<and> length (map swatch_name COLORS) = 12"
proof -
  have h: "handleApplyGarment (panel sys) (panel sys) =
           ((panel sys)\<lparr>pendingFile := None, selectedGarmentForColor := None,
                        selectedColor := ''Original''\<rparr>,
            [OnGarmentSelect f i c])"
    using assms by (simp add: handleApplyGarment_def)
  have v: "color_view_closure sys = Some (panel sys)"
    using assms by (simp add: color_view_closure_def color_view_present_def)
  have st: "step br sys ApplyClick =
           (sys\<lparr>panel := (panel sys)\<lparr>pendingFile := None, selectedGarmentForColor := None,
                                      selectedColor := ''Original''\<rparr>,
                color_view_exiting := Some (panel sys)\<rparr>,
            [OnGarmentSelect f i c])"
    using h v assms(2)
    by (simp add: step_def commit_def presence_def color_view_present_def)
  have col: "sys = fst (run br (initial_system p0) evs) \<longrightarrow> c \<in> set (map swatch_name COLORS)"
    using assms(3) swatch_inv_run by blast
  show ?thesis
    using h st col by (simp add: color_view_present_def pending_tuple_def COLORS_def)
qed

text \<open>
  Claim C3. While \<open>isLoading\<close> is true, or when the item's id is in
  \<open>activeGarmentIds\<close>, a click on the garment is a no-op: handleGarmentClick returns the
  panel state unchanged (so the error, the pending file, the candidate item and the color
  stay), with no effect at all (no callback, no acquisition) and awaiting nothing, and the
  system as a whole is unchanged.
\<close>
theorem guarded_click_is_noop:
  assumes "isLoading (props sys) \<or> item_id item \<in> set (activeGarmentIds (props sys))"
  shows "handleGarmentClick br (props sys) (panel sys) item = (panel sys, [], None)
       \<and> step br sys (GarmentClick item) = (sys, [])"
  using assms by (auto simp: handleGarmentClick_def step_def commit_def presence_def)

text \<open>
  Claim C8. In every state of the color sub-view, with a pending file and a candidate
  item, Cancel has no effect outside the panel (the effect list is empty, so no callback),
  clears the pending file and the candidate item and nothing else in the panel state, and
  the color sub-view is no longer present afterwards: it exits, and the grid of the active
  tab shows again.
\<close>
theorem cancel_discards_pending:
  assumes "selectedGarmentForColor (panel sys) = Some i"
    and "pendingFile (panel sys) = Some f"
  shows "handleCancelColorSelection (panel sys) =
           ((panel sys)\<lparr>pendingFile := None, selectedGarmentForColor := None\<rparr>, [])
       \<and> step br sys CancelClick =
           (sys\<lparr>panel := (panel sys)\<lparr>pendingFile := None, selectedGarmentForColor := None\<rparr>,
                color_view_exiting := Some (panel sys)\<rparr>, [])
       \<and> \<not> color_view_present (panel (fst (step br sys CancelClick)))
       \<and> pending_tuple (panel (fst (step br sys CancelClick))) = None"
  using assms
  by (simp add: handleCancelColorSelection_def view_defs pending_tuple_def)


lemma apply_from_consistent:
  assumes "exits_consistent sys"
  shows "pendingFile (panel (fst (step br sys ApplyClick))) = None
       \<and> selectedGarmentForColor (panel (fst (step br sys ApplyClick))) = None"
  using assms unfolding panel_step
  by (auto simp: exits_consistent_def color_view_closure_def color_view_present_def
        handleApplyGarment_def split: option.splits)

lemma cancel_from_consistent:
  assumes "exits_consistent sys"
  shows "pendingFile (panel (fst (step br sys CancelClick))) = None
       \<and> selectedGarmentForColor (panel (fst (step br sys CancelClick))) = None"
  using assms unfolding panel_step
  by (auto simp: exits_consistent_def color_view_closure_def color_view_mounted_def
        color_view_present_def handleCancelColorSelection_def split: option.splits)

lemma exit_complete:
  "panel (fst (step br sys ColorViewExitComplete)) = panel sys
 \<and> color_view_mounted (fst (step br sys ColorViewExitComplete)) =
     (selectedGarmentForColor (panel sys) \<noteq> None)"
  by (simp add: view_defs)

text \<open>
  Claim C2, amended. After every sequence of events from the initial panel (garment
  clicks and the settling of their acquisitions, custom uploads, swatch clicks, apply,
  cancel, the save flow, tab and props changes, completed exit animations): whenever a
  candidate item is set the color sub-view is mounted, and is not exiting; when no
  candidate item is set the sub-view is mounted only while it exits, with a render that
  had both a pending file and a candidate item; once its exit animation has completed it
  is mounted exactly when a candidate item is set. The pending file is set exactly when
  the candidate item is, hence the one in-flight tuple is present exactly then; and both
  Apply and Cancel leave the pending file, the candidate item and the tuple cleared.
\<close>
theorem pending_tuple_invariant:
  "let sys = fst (run br (initial_system p0) evs);
       s = panel sys;
       a = panel (fst (step br sys ApplyClick));
       c = panel (fst (step br sys CancelClick));
       e = fst (step br sys ColorViewExitComplete)
   in (selectedGarmentForColor s \<noteq> None \<longrightarrow>
         color_view_mounted sys \<and> color_view_exiting sys = None)
    \<and> (selectedGarmentForColor s = None \<and> color_view_mounted sys \<longrightarrow>
         (\<exists>r. color_view_exiting sys = Some r
            \<and> selectedGarmentForColor r \<noteq> None \<and> pendingFile r \<noteq> None))
    \<and> panel e = s
    \<and> color_view_mounted e = (selectedGarmentForColor s \<noteq> None)
    \<and> (pendingFile s \<noteq> None) = (selectedGarmentForColor s \<noteq> None)
    \<and> (pending_tuple s \<noteq> None) = (selectedGarmentForColor s \<noteq> None)
    \<and> pendingFile a = None \<and> selectedGarmentForColor a = None \<and> pending_tuple a = None
    \<and> pendingFile c = None \<and> selectedGarmentForColor c = None \<and> pending_tuple c = None"
proof -
  define sys where "sys = fst (run br (initial_system p0) evs)"
  have wf: "exits_consistent sys" unfolding sys_def by (rule exits_consistent_run)
  have inv: "(pendingFile (panel sys) = None) = (selectedGarmentForColor (panel sys) = None)"
    using wf by (simp add: exits_consistent_def)
  have m1: "selectedGarmentForColor (panel sys) \<noteq> None \<longrightarrow>
         color_view_mounted sys \<and> color_view_exiting sys = None"
    using wf
    by (simp add: exits_consistent_def color_view_mounted_def color_view_closure_def
          color_view_present_def)
  have m2: "selectedGarmentForColor (panel sys) = None \<and> color_view_mounted sys \<longrightarrow>
         (\<exists>r. color_view_exiting sys = Some r
            \<and> selectedGarmentForColor r \<noteq> None \<and> pendingFile r \<noteq> None)"
    using wf
    by (auto simp: exits_consistent_def color_view_mounted_def color_view_closure_def
          color_view_present_def split: option.splits)
  have e1: "panel (fst (step br sys ColorViewExitComplete)) = panel sys"
    and e2: "color_view_mounted (fst (step br sys ColorViewExitComplete)) =
               (selectedGarmentForColor (panel sys) \<noteq> None)"
    using exit_complete [of br sys] by simp_all
  have pf: "(pendingFile (panel sys) \<noteq> None) = (selectedGarmentForColor (panel sys) \<noteq> None)"
    using inv by simp
  have tup: "(pending_tuple (panel sys) \<noteq> None) = (selectedGarmentForColor (panel sys) \<noteq> None)"
    using inv by (auto simp: pending_tuple_def split: option.splits)
  have ap1: "pendingFile (panel (fst (step br sys ApplyClick))) = None"
    and ap2: "selectedGarmentForColor (panel (fst (step br sys ApplyClick))) = None"
    using apply_from_consistent [OF wf, of br] by simp_all
  have ca1: "pendingFile (panel (fst (step br sys CancelClick))) = None"
    and ca2: "selectedGarmentForColor (panel (fst (step br sys CancelClick))) = None"
    using cancel_from_consistent [OF wf, of br] by simp_all
  have ap3: "pending_tuple (panel (fst (step br sys ApplyClick))) = None"
    unfolding pending_tuple_def using ap1 by simp
  have ca3: "pending_tuple (panel (fst (step br sys CancelClick))) = None"
    unfolding pending_tuple_def using ca1 by simp
  show ?thesis
    unfolding Let_def sys_def [symmetric]
    using m1 m2 e1 e2 pf tup ap1 ap2 ap3 ca1 ca2 ca3 by blast
qed

section \<open>The save-look form\<close>

lemma trim_empty_iff: "(trim n = []) = (\<forall>c\<in>set n. js_whitespace c)"
proof
  assume "trim n = []"
  then have e: "\<forall>c\<in>set (dropWhile js_whitespace n). js_whitespace c"
    by (simp add: trim_def dropWhile_eq_Nil_conv)
  have "dropWhile js_whitespace n = []"
  proof (rule ccontr)
    assume ne: "dropWhile js_whitespace n \<noteq> []"
    then have "\<not> js_whitespace (hd (dropWhile js_whitespace n))" by (rule hd_dropWhile)
    moreover have "hd (dropWhile js_whitespace n) \<in> set (dropWhile js_whitespace n)"
      using ne by simp
    ultimately show False using e by blast
  qed
  then show "\<forall>c\<in>set n. js_whitespace c" by (simp add: dropWhile_eq_Nil_conv)
next
  assume "\<forall>c\<in>set n. js_whitespace c"
  then show "trim n = []"
    by (auto simp: trim_def dropWhile_eq_Nil_conv dest: set_dropWhileD)
qed

lemma trim_decomposition:
  "\<exists>pre post. n = pre @ trim n @ post
     \<and> (\<forall>c\<in>set pre. js_whitespace c) \<and> (\<forall>c\<in>set post. js_whitespace c)"
proof -
  define m where "m = dropWhile js_whitespace n"
  have n: "n = takeWhile js_whitespace n @ m" by (simp add: m_def)
  have "rev (takeWhile js_whitespace (rev m) @ dropWhile js_whitespace (rev m)) = m"
    by (simp only: takeWhile_dropWhile_id rev_rev_ident)
  then have "rev (dropWhile js_whitespace (rev m)) @ rev (takeWhile js_whitespace (rev m)) = m"
    by (simp only: rev_append)
  then have m: "m = trim n @ rev (takeWhile js_whitespace (rev m))"
    unfolding trim_def m_def by (rule sym)
  have p1: "\<forall>c\<in>set (takeWhile js_whitespace n). js_whitespace c"
    by (auto dest: set_takeWhileD)
  have p2: "\<forall>c\<in>set (rev (takeWhile js_whitespace (rev m))). js_whitespace c"
    by (auto dest: set_takeWhileD)
  have "n = takeWhile js_whitespace n @ trim n @ rev (takeWhile js_whitespace (rev m))"
    using n m by simp
  then show ?thesis using p1 p2 by blast
qed

lemma trim_ends:
  assumes "trim n \<noteq> []"
  shows "\<not> js_whitespace (hd (trim n)) \<and> \<not> js_whitespace (last (trim n))"
proof -
  define m where "m = dropWhile js_whitespace n"
  define r where "r = dropWhile js_whitespace (rev m)"
  have t: "trim n = rev r" by (simp add: trim_def m_def r_def)
  have rne: "r \<noteq> []" using assms t by simp
  then have l: "\<not> js_whitespace (hd r)" unfolding r_def by (rule hd_dropWhile)
  have mne: "m \<noteq> []" using rne r_def by auto
  then have hm: "\<not> js_whitespace (hd m)" unfolding m_def by (rule hd_dropWhile)
  have "last r = last (rev m)" using rne unfolding r_def
    by (metis takeWhile_dropWhile_id last_appendR)
  then have "last r = hd m" using mne by (simp add: last_rev)
  then show ?thesis using l hm rne t by (simp add: hd_rev last_rev)
qed

text \<open>
  Claim C4. When the entered name consists of white space only (in particular when it is
  empty), the submit button is disabled, handleSaveSubmit changes no state and calls no
  callback, and a submission with the dialog open (or with no dialog mounted) changes
  nothing, so the modal stays open. Otherwise the button is enabled and handleSaveSubmit
  calls \<open>onSaveLook\<close> exactly once, with the trimmed name, clears the name, closes the
  modal and switches the active tab to looks. The two last conjuncts say the same of every
  submission of a mounted form, in terms of the name \<open>shown\<close> in the render the form
  has, which is the current name while the dialog is open. That \<open>trim\<close> removes exactly
  the white space at both ends is \<open>trim_decomposition\<close> and \<open>trim_ends\<close>.
\<close>
theorem save_submit:
  "((\<forall>c\<in>set (newLookName (panel sys)). js_whitespace c) \<longrightarrow>
      submit_disabled (panel sys)
    \<and> handleSaveSubmit (panel sys) (panel sys) = (panel sys, [PreventDefault])
    \<and> filter is_callback (snd (handleSaveSubmit (panel sys) (panel sys))) = []
    \<and> (isSaveModalOpen (panel sys) \<or> save_modal_exiting sys = None \<longrightarrow>
         step br sys SaveSubmit = (sys, [])))
 \<and> (\<not> (\<forall>c\<in>set (newLookName (panel sys)). js_whitespace c) \<longrightarrow>
      \<not> submit_disabled (panel sys)
    \<and> handleSaveSubmit (panel sys) (panel sys) =
        ((panel sys)\<lparr>newLookName := [], isSaveModalOpen := False, activeTab := Looks\<rparr>,
         [PreventDefault, OnSaveLook (trim (newLookName (panel sys)))])
    \<and> filter is_callback (snd (handleSaveSubmit (panel sys) (panel sys))) =
        [OnSaveLook (trim (newLookName (panel sys)))]
    \<and> (isSaveModalOpen (panel sys) \<longrightarrow>
         step br sys SaveSubmit =
           (sys\<lparr>panel := (panel sys)\<lparr>newLookName := [], isSaveModalOpen := False,
                                      activeTab := Looks\<rparr>,
                save_modal_exiting := Some (panel sys)\<rparr>,
            [PreventDefault, OnSaveLook (trim (newLookName (panel sys)))])))
 \<and> ((\<forall>r. save_modal_closure sys = Some r \<longrightarrow> (\<forall>c\<in>set (newLookName r). js_whitespace c)) \<longrightarrow>
      step br sys SaveSubmit = (sys, []))
 \<and> (save_modal_closure sys = Some shown \<and> \<not> (\<forall>c\<in>set (newLookName shown). js_whitespace c) \<longrightarrow>
      snd (step br sys SaveSubmit) = [PreventDefault, OnSaveLook (trim (newLookName shown))]
    \<and> panel (fst (step br sys SaveSubmit)) =
        (panel sys)\<lparr>newLookName := [], isSaveModalOpen := False, activeTab := Looks\<rparr>)"
proof -
  have ab:
   "((\<forall>c\<in>set (newLookName (panel sys)). js_whitespace c) \<longrightarrow>
      submit_disabled (panel sys)
    \<and> handleSaveSubmit (panel sys) (panel sys) = (panel sys, [PreventDefault])
    \<and> filter is_callback (snd (handleSaveSubmit (panel sys) (panel sys))) = []
    \<and> (isSaveModalOpen (panel sys) \<or> save_modal_exiting sys = None \<longrightarrow>
         step br sys SaveSubmit = (sys, [])))
 \<and> (\<not> (\<forall>c\<in>set (newLookName (panel sys)). js_whitespace c) \<longrightarrow>
      \<not> submit_disabled (panel sys)
    \<and> handleSaveSubmit (panel sys) (panel sys) =
        ((panel sys)\<lparr>newLookName := [], isSaveModalOpen := False, activeTab := Looks\<rparr>,
         [PreventDefault, OnSaveLook (trim (newLookName (panel sys)))])
    \<and> filter is_callback (snd (handleSaveSubmit (panel sys) (panel sys))) =
        [OnSaveLook (trim (newLookName (panel sys)))]
    \<and> (isSaveModalOpen (panel sys) \<longrightarrow>
         step br sys SaveSubmit =
           (sys\<lparr>panel := (panel sys)\<lparr>newLookName := [], isSaveModalOpen := False,
                                      activeTab := Looks\<rparr>,
                save_modal_exiting := Some (panel sys)\<rparr>,
            [PreventDefault, OnSaveLook (trim (newLookName (panel sys)))])))"
  proof (cases "trim (newLookName (panel sys)) = []")
    case True
    then have "\<forall>c\<in>set (newLookName (panel sys)). js_whitespace c" by (simp add: trim_empty_iff)
    then show ?thesis using True
      by (auto simp: submit_disabled_def handleSaveSubmit_def view_defs)
  next
    case False
    then have "\<not> (\<forall>c\<in>set (newLookName (panel sys)). js_whitespace c)"
      by (simp add: trim_empty_iff)
    then show ?thesis using False
      by (auto simp: submit_disabled_def handleSaveSubmit_def view_defs)
  qed
  have g: "(\<forall>r. save_modal_closure sys = Some r \<longrightarrow> (\<forall>c\<in>set (newLookName r). js_whitespace c)) \<longrightarrow>
      step br sys SaveSubmit = (sys, [])"
  proof (cases "save_modal_closure sys")
    case None
    then show ?thesis by (simp add: step_def commit_def presence_def)
  next
    case (Some r)
    show ?thesis
    proof
      assume "\<forall>r. save_modal_closure sys = Some r \<longrightarrow> (\<forall>c\<in>set (newLookName r). js_whitespace c)"
      then have "trim (newLookName r) = []" using Some by (simp add: trim_empty_iff)
      then show "step br sys SaveSubmit = (sys, [])"
        using Some by (simp add: step_def commit_def presence_def submit_disabled_def)
    qed
  qed
  have e: "save_modal_closure sys = Some shown \<and> \<not> (\<forall>c\<in>set (newLookName shown). js_whitespace c) \<longrightarrow>
      snd (step br sys SaveSubmit) = [PreventDefault, OnSaveLook (trim (newLookName shown))]
    \<and> panel (fst (step br sys SaveSubmit)) =
        (panel sys)\<lparr>newLookName := [], isSaveModalOpen := False, activeTab := Looks\<rparr>"
  proof
    assume h: "save_modal_closure sys = Some shown
             \<and> \<not> (\<forall>c\<in>set (newLookName shown). js_whitespace c)"
    then have t: "trim (newLookName shown) \<noteq> []" by (simp add: trim_empty_iff)
    show "snd (step br sys SaveSubmit) = [PreventDefault, OnSaveLook (trim (newLookName shown))]
        \<and> panel (fst (step br sys SaveSubmit)) =
            (panel sys)\<lparr>newLookName := [], isSaveModalOpen := False, activeTab := Looks\<rparr>"
      using h t by (simp add: snd_step panel_step submit_disabled_def handleSaveSubmit_def)
  qed
  show ?thesis using ab g e by blast
qed

text \<open>
  Claim C5. For a chosen file whose declared type does not start with \<open>image/\<close>,
  handleFileChange sets the validation error, which is displayed, and leaves the pending
  file and the candidate item as they were. For one whose type starts with \<open>image/\<close> it
  sets the file as pending and a synthesized item as candidate (id \<open>custom-\<close> followed by
  the decimal time stamp, name the file's name, url the object URL of the file), resets
  the color to Original, and the color sub-view is present. In both cases no callback is
  called and no acquisition is started. On the garments tab, when not loading, the change
  event of the file input does exactly what handleFileChange does, followed by the render.
\<close>
theorem custom_upload:
  assumes "files = Some (file # rest)"
  shows "(\<not> startsWith (file_type file) ''image/'' \<longrightarrow>
           handleFileChange br now (panel sys) files =
             ((panel sys)\<lparr>error := Some ''Please select an image file.''\<rparr>, [])
         \<and> error_displayed (fst (handleFileChange br now (panel sys) files))
         \<and> pendingFile (fst (handleFileChange br now (panel sys) files)) = pendingFile (panel sys)
         \<and> selectedGarmentForColor (fst (handleFileChange br now (panel sys) files)) =
             selectedGarmentForColor (panel sys))
       \<and> (startsWith (file_type file) ''image/'' \<longrightarrow>
           handleFileChange br now (panel sys) files =
             ((panel sys)\<lparr>pendingFile := Some file,
                          selectedGarmentForColor :=
                            Some \<lparr>item_id = ''custom-'' @ show_int now, item_name = file_name file,
                                  item_url = createObjectURL br file\<rparr>,
                          selectedColor := ''Original''\<rparr>,
              [CreateObjectURL file])
         \<and> color_view_present (fst (handleFileChange br now (panel sys) files)))
       \<and> filter is_callback (snd (handleFileChange br now (panel sys) files)) = []
       \<and> filter is_acquisition (snd (handleFileChange br now (panel sys) files)) = []
       \<and> (activeTab (panel sys) = Garments \<and> \<not> isLoading (props sys) \<longrightarrow>
            step br sys (FileChange files now) =
              (commit sys (sys\<lparr>panel := fst (handleFileChange br now (panel sys) files)\<rparr>),
               snd (handleFileChange br now (panel sys) files))
          \<and> panel (fst (step br sys (FileChange files now))) =
              fst (handleFileChange br now (panel sys) files)
          \<and> props (fst (step br sys (FileChange files now))) = props sys
          \<and> inflight (fst (step br sys (FileChange files now))) = inflight sys
          \<and> color_view_mounted (fst (step br sys (FileChange files now))) =
              (startsWith (file_type file) ''image/'' \<or> color_view_mounted sys))"
  using assms
  by (auto simp: handleFileChange_def error_displayed_def view_defs Let_def
        case_prod_unfold)


section \<open>Properties of urlToFile\<close>

lemma toBlob_requests:
  "ToBlob t \<in> set (fst (urlToFile br url filename)) \<Longrightarrow> t = ''image/png''"
  by (auto simp: urlToFile_def Let_def
        split: image_event.splits if_splits option.splits dom_result.splits)

text \<open>
  Claim C6. When the image loads, the canvas has a 2d context, the image is drawn and
  \<open>toBlob\<close> delivers a blob, urlToFile resolves to a file with the requested file name,
  the bytes of the blob and the blob's type, or \<open>image/png\<close> when the blob reports none.
  The canvas is asked for \<open>image/png\<close>; no invocation of urlToFile asks the canvas for
  any other type. A garment click that passes the guard requests the item's url under the
  item's name, so the file is named after the item.
\<close>
theorem acquisition_success:
  assumes "load_image br url = OnLoad w h"
    and "getContext_2d br w h = Returns True"
    and "drawImage br url w h = Returns ()"
    and "toBlob br url w h ''image/png'' = Returns (Some blob)"
  shows "snd (urlToFile br url filename) =
           Resolved \<lparr>file_name = filename,
                     file_type = (if blob_type blob = [] then ''image/png'' else blob_type blob),
                     file_bytes = blob_bytes blob\<rparr>
       \<and> ToBlob ''image/png'' \<in> set (fst (urlToFile br url filename))
       \<and> (\<forall>br' url' filename' t.
             ToBlob t \<in> set (fst (urlToFile br' url' filename')) \<longrightarrow> t = ''image/png'')
       \<and> (\<not> isLoading p \<and> item_id item \<notin> set (activeGarmentIds p)
            \<and> item_url item = url \<and> item_name item = filename \<longrightarrow>
          handleGarmentClick br p s item =
            (s\<lparr>error := None\<rparr>, [StartUrlToFile (item_url item) (item_name item)],
             Some (Resolved \<lparr>file_name = item_name item,
                     file_type = (if blob_type blob = [] then ''image/png'' else blob_type blob),
                     file_bytes = blob_bytes blob\<rparr>)))"
proof -
  have r: "snd (urlToFile br url filename) =
           Resolved \<lparr>file_name = filename,
                     file_type = (if blob_type blob = [] then ''image/png'' else blob_type blob),
                     file_bytes = blob_bytes blob\<rparr>" for filename
    using assms by (simp add: urlToFile_def Let_def)
  have t: "ToBlob ''image/png'' \<in> set (fst (urlToFile br url filename))"
    using assms by (simp add: urlToFile_def Let_def)
  have a: "\<forall>br' url' filename' t.
             ToBlob t \<in> set (fst (urlToFile br' url' filename')) \<longrightarrow> t = ''image/png''"
    using toBlob_requests by blast
  have g: "\<not> isLoading p \<and> item_id item \<notin> set (activeGarmentIds p)
            \<and> item_url item = url \<and> item_name item = filename \<longrightarrow>
          handleGarmentClick br p s item =
            (s\<lparr>error := None\<rparr>, [StartUrlToFile (item_url item) (item_name item)],
             Some (Resolved \<lparr>file_name = item_name item,
                     file_type = (if blob_type blob = [] then ''image/png'' else blob_type blob),
                     file_bytes = blob_bytes blob\<rparr>))"
    using r by (auto simp: handleGarmentClick_def)
  show ?thesis using r t a g by blast
qed

lemma load_message_distinct:
  "''Could not load image from URL for canvas conversion. Error: '' @ e \<noteq> ''Could not get canvas context.''"
  "''Could not load image from URL for canvas conversion. Error: '' @ e \<noteq> ''Canvas toBlob failed.''"
  "''Could not get canvas context.'' \<noteq> ''Canvas toBlob failed.''"
  by simp_all

lemma urlToFile_cases:
  "snd (urlToFile br url filename) =
     (case load_image br url of
        NoEvent \<Rightarrow> Pending
      | OnError e \<Rightarrow> Rejected (''Could not load image from URL for canvas conversion. Error: '' @ e)
      | OnLoad w h \<Rightarrow>
          (case getContext_2d br w h of
             Throws \<Rightarrow> Pending
           | Returns ctx \<Rightarrow>
               if \<not> ctx then Rejected ''Could not get canvas context.''
               else (case drawImage br url w h of
                       Throws \<Rightarrow> Pending
                     | Returns u \<Rightarrow>
                         (case toBlob br url w h ''image/png'' of
                            Throws \<Rightarrow> Pending
                          | Returns None \<Rightarrow> Rejected ''Canvas toBlob failed.''
                          | Returns (Some blob) \<Rightarrow>
                              Resolved \<lparr>file_name = filename,
                                file_type =
                                  (if blob_type blob \<noteq> [] then blob_type blob else ''image/png''),
                                file_bytes = blob_bytes blob\<rparr>))))"
  by (simp add: urlToFile_def Let_def
        split: image_event.splits option.splits dom_result.splits)

text \<open>
  Claim C7, amended. urlToFile rejects in exactly three ways, with three distinct
  messages: with the message of the unreadable source exactly when the error event is
  delivered, with the message of the missing canvas context exactly when the image loaded
  and \<open>getContext\<close> returned \<open>null\<close>, with the message of the failed \<open>toBlob\<close> exactly
  when the image was drawn and \<open>toBlob\<close> delivered \<open>null\<close>. It resolves with a file
  exactly when \<open>toBlob\<close> delivered a blob. It stays pending exactly when neither the load
  nor the error event is delivered, or a canvas call of the load handler throws. Every
  invocation has exactly one of these five outcomes.
\<close>
theorem acquisition_outcomes:
  "((\<exists>e. snd (urlToFile br url filename) =
            Rejected (''Could not load image from URL for canvas conversion. Error: '' @ e))
      = (\<exists>e. load_image br url = OnError e))
 \<and> ((snd (urlToFile br url filename) = Rejected ''Could not get canvas context.'')
      = (\<exists>w h. load_image br url = OnLoad w h \<and> getContext_2d br w h = Returns False))
 \<and> ((snd (urlToFile br url filename) = Rejected ''Canvas toBlob failed.'')
      = (\<exists>w h. load_image br url = OnLoad w h \<and> getContext_2d br w h = Returns True
               \<and> drawImage br url w h = Returns ()
               \<and> toBlob br url w h ''image/png'' = Returns None))
 \<and> ((\<exists>f. snd (urlToFile br url filename) = Resolved f)
      = (\<exists>w h blob. load_image br url = OnLoad w h \<and> getContext_2d br w h = Returns True
               \<and> drawImage br url w h = Returns ()
               \<and> toBlob br url w h ''image/png'' = Returns (Some blob)))
 \<and> ((snd (urlToFile br url filename) = Pending)
      = (load_image br url = NoEvent
         \<or> (\<exists>w h. load_image br url = OnLoad w h
               \<and> (getContext_2d br w h = Throws
                  \<or> getContext_2d br w h = Returns True
                    \<and> (drawImage br url w h = Throws
                       \<or> drawImage br url w h = Returns ()
                         \<and> toBlob br url w h ''image/png'' = Throws)))))
 \<and> (\<forall>e. ''Could not load image from URL for canvas conversion. Error: '' @ e
            \<noteq> ''Could not get canvas context.''
        \<and> ''Could not load image from URL for canvas conversion. Error: '' @ e
            \<noteq> ''Canvas toBlob failed.'')
 \<and> ''Could not get canvas context.'' \<noteq> ''Canvas toBlob failed.''
 \<and> (if \<exists>f. snd (urlToFile br url filename) = Resolved f then 1 else 0)
   + (if \<exists>e. snd (urlToFile br url filename) =
          Rejected (''Could not load image from URL for canvas conversion. Error: '' @ e)
      then 1 else 0)
   + (if snd (urlToFile br url filename) = Rejected ''Could not get canvas context.''
      then 1 else 0)
   + (if snd (urlToFile br url filename) = Rejected ''Canvas toBlob failed.''
      then 1 else 0)
   + (if snd (urlToFile br url filename) = Pending then 1 else 0) = (1::nat)"
proof (cases "load_image br url")
  case NoEvent
  then show ?thesis by (simp add: urlToFile_cases)
next
  case (OnError e)
  then show ?thesis by (simp add: urlToFile_cases)
next
  case (OnLoad w h)
  show ?thesis
  proof (cases "getContext_2d br w h")
    case Throws
    then show ?thesis using OnLoad by (simp add: urlToFile_cases)
  next
    case (Returns ctx)
    show ?thesis
    proof (cases ctx)
      case False
      then show ?thesis using OnLoad Returns by (simp add: urlToFile_cases)
    next
      case True
      show ?thesis
      proof (cases "drawImage br url w h")
        case Throws
        then show ?thesis using OnLoad Returns True by (simp add: urlToFile_cases)
      next
        case d: (Returns u)
        show ?thesis
        proof (cases "toBlob br url w h ''image/png''")
          case Throws
          then show ?thesis using OnLoad Returns True d by (simp add: urlToFile_cases)
        next
          case b: (Returns ob)
          then show ?thesis using OnLoad Returns True d
            by (cases ob) (simp_all add: urlToFile_cases)
        qed
      qed
    qed
  qed
qed

text \<open>
  The claim as stated, that every invocation either resolves or rejects, fails for a URL
  whose load never completes, and for images whose load event is delivered and for which
  \<open>drawImage\<close> or \<open>toBlob\<close> throws: the promise is neither resolved nor rejected.
\<close>
theorem pending_counterexample:
  "load_image demo_browser ''hung.png'' = NoEvent
 \<and> snd (urlToFile demo_browser ''hung.png'' ''Shirt'') = Pending
 \<and> load_image demo_browser ''broken.png'' = OnLoad 5 5
 \<and> snd (urlToFile demo_browser ''broken.png'' ''Shirt'') = Pending
 \<and> load_image demo_browser ''tainted.png'' = OnLoad 6 6
 \<and> snd (urlToFile demo_browser ''tainted.png'' ''Shirt'') = Pending"
  by (simp add: urlToFile_def demo_browser_def)


section \<open>Acquisitions that settle out of order\<close>

lemma resume_resolved:
  "handleGarmentClick_resume s item (Resolved file) =
     (s\<lparr>pendingFile := Some file, selectedGarmentForColor := Some item,
        selectedColor := ''Original''\<rparr>, [])"
  by (simp add: handleGarmentClick_resume_def)

lemma click_starts:
  assumes "activeTab (panel sys) = Garments"
    and "\<not> isLoading (props sys)"
    and "x \<in> set (wardrobe (props sys))"
    and "item_id x \<notin> set (activeGarmentIds (props sys))"
    and "snd (urlToFile br (item_url x) (item_name x)) = Resolved fx"
  shows "fst (step br sys (GarmentClick x)) =
           sys\<lparr>panel := (panel sys)\<lparr>error := None\<rparr>,
               inflight := inflight sys @ [(x, Resolved fx)]\<rparr>"
  using assms
  by (auto simp: handleGarmentClick_def step_def commit_def presence_def color_view_present_def)

lemma two_clicks:
  assumes "activeTab (panel sys) = Garments"
    and "\<not> isLoading (props sys)"
    and "x \<in> set (wardrobe (props sys))" and "y \<in> set (wardrobe (props sys))"
    and "item_id x \<notin> set (activeGarmentIds (props sys))"
    and "item_id y \<notin> set (activeGarmentIds (props sys))"
    and "snd (urlToFile br (item_url x) (item_name x)) = Resolved fx"
    and "snd (urlToFile br (item_url y) (item_name y)) = Resolved fy"
  shows "inflight (fst (run br sys [GarmentClick x, GarmentClick y])) =
           inflight sys @ [(x, Resolved fx), (y, Resolved fy)]"
proof -
  define s1 where "s1 = fst (step br sys (GarmentClick x))"
  have s1: "s1 = sys\<lparr>panel := (panel sys)\<lparr>error := None\<rparr>,
               inflight := inflight sys @ [(x, Resolved fx)]\<rparr>"
    unfolding s1_def using assms(1,2,3,5,7) by (rule click_starts)
  have a: "activeTab (panel s1) = Garments" "\<not> isLoading (props s1)"
    "y \<in> set (wardrobe (props s1))" "item_id y \<notin> set (activeGarmentIds (props s1))"
    using assms by (simp_all add: s1)
  have s2: "fst (step br s1 (GarmentClick y)) =
           s1\<lparr>panel := (panel s1)\<lparr>error := None\<rparr>,
               inflight := inflight s1 @ [(y, Resolved fy)]\<rparr>"
    using a assms(8) by (rule click_starts)
  have r: "fst (run br sys [GarmentClick x, GarmentClick y]) = fst (step br s1 (GarmentClick y))"
    by (simp add: case_prod_unfold s1_def)
  show ?thesis unfolding r s2 by (simp add: s1)
qed

lemma settle_resolved:
  assumes "k < length (inflight sys)"
    and "inflight sys ! k = (x, Resolved fx)"
  shows "panel (fst (step br sys (AcquisitionSettles k))) =
           (panel sys)\<lparr>pendingFile := Some fx, selectedGarmentForColor := Some x,
                        selectedColor := ''Original''\<rparr>"
    and "inflight (fst (step br sys (AcquisitionSettles k))) =
           take k (inflight sys) @ drop (Suc k) (inflight sys)"
  using assms by (simp_all add: resume_resolved step_def commit_def)

lemma fst_run_append:
  "fst (run br sys (evs @ evs')) = fst (run br (fst (run br sys evs)) evs')"
proof (induction evs arbitrary: sys)
  case Nil
  show ?case by simp
next
  case (Cons e evs)
  show ?case unfolding append_Cons fst_run_Cons by (rule Cons.IH)
qed

lemma fst_run_single: "fst (run br sys [ev]) = fst (step br sys ev)"
  by (simp add: case_prod_unfold)

lemma last_settled_wins:
  assumes "activeTab (panel sys) = Garments"
    and "\<not> isLoading (props sys)"
    and "x \<in> set (wardrobe (props sys))" and "y \<in> set (wardrobe (props sys))"
    and "item_id x \<notin> set (activeGarmentIds (props sys))"
    and "item_id y \<notin> set (activeGarmentIds (props sys))"
    and "snd (urlToFile br (item_url x) (item_name x)) = Resolved fx"
    and "snd (urlToFile br (item_url y) (item_name y)) = Resolved fy"
    and "n = length (inflight sys)"
  shows "pending_tuple (panel (fst (run br sys
           [GarmentClick x, GarmentClick y, AcquisitionSettles n, AcquisitionSettles n]))) =
             Some (fy, y, ''Original'')"
    and "pending_tuple (panel (fst (run br sys
           [GarmentClick x, GarmentClick y, AcquisitionSettles (Suc n), AcquisitionSettles n]))) =
             Some (fx, x, ''Original'')"
proof -
  define s2 where "s2 = fst (run br sys [GarmentClick x, GarmentClick y])"
  have i2: "inflight s2 = inflight sys @ [(x, Resolved fx), (y, Resolved fy)]"
    unfolding s2_def using assms(1-8) by (rule two_clicks)
  define a3 where "a3 = fst (step br s2 (AcquisitionSettles n))"
  have ka: "n < length (inflight s2)" and ea: "inflight s2 ! n = (x, Resolved fx)"
    by (simp_all add: i2 assms(9))
  have ia3: "inflight a3 = inflight sys @ [(y, Resolved fy)]"
    unfolding a3_def settle_resolved(2) [OF ka ea] by (simp add: i2 assms(9))
  have ka3: "n < length (inflight a3)" and ea3: "inflight a3 ! n = (y, Resolved fy)"
    by (simp_all add: ia3 assms(9))
  have a4: "panel (fst (step br a3 (AcquisitionSettles n))) =
           (panel a3)\<lparr>pendingFile := Some fy, selectedGarmentForColor := Some y,
                       selectedColor := ''Original''\<rparr>"
    using ka3 ea3 by (rule settle_resolved(1))
  define b3 where "b3 = fst (step br s2 (AcquisitionSettles (Suc n)))"
  have kb: "Suc n < length (inflight s2)" and eb: "inflight s2 ! Suc n = (y, Resolved fy)"
    by (simp_all add: i2 assms(9) nth_append)
  have ib3: "inflight b3 = inflight sys @ [(x, Resolved fx)]"
    unfolding b3_def settle_resolved(2) [OF kb eb] by (simp add: i2 assms(9))
  have kb3: "n < length (inflight b3)" and eb3: "inflight b3 ! n = (x, Resolved fx)"
    by (simp_all add: ib3 assms(9))
  have b4: "panel (fst (step br b3 (AcquisitionSettles n))) =
           (panel b3)\<lparr>pendingFile := Some fx, selectedGarmentForColor := Some x,
                       selectedColor := ''Original''\<rparr>"
    using kb3 eb3 by (rule settle_resolved(1))
  have ra: "fst (run br sys [GarmentClick x, GarmentClick y, AcquisitionSettles n, AcquisitionSettles n])
            = fst (step br a3 (AcquisitionSettles n))"
    using fst_run_append [of br sys "[GarmentClick x, GarmentClick y]"
            "[AcquisitionSettles n, AcquisitionSettles n]"]
    by (simp only: append_Cons append_Nil fst_run_Cons [of br s2] fst_run_single
          s2_def [symmetric] a3_def [symmetric])
  have rb: "fst (run br sys [GarmentClick x, GarmentClick y, AcquisitionSettles (Suc n), AcquisitionSettles n])
            = fst (step br b3 (AcquisitionSettles n))"
    using fst_run_append [of br sys "[GarmentClick x, GarmentClick y]"
            "[AcquisitionSettles (Suc n), AcquisitionSettles n]"]
    by (simp only: append_Cons append_Nil fst_run_Cons [of br s2] fst_run_single
          s2_def [symmetric] b3_def [symmetric])
  show "pending_tuple (panel (fst (run br sys
           [GarmentClick x, GarmentClick y, AcquisitionSettles n, AcquisitionSettles n]))) =
             Some (fy, y, ''Original'')"
    unfolding ra a4 by (simp add: pending_tuple_def)
  show "pending_tuple (panel (fst (run br sys
           [GarmentClick x, GarmentClick y, AcquisitionSettles (Suc n), AcquisitionSettles n]))) =
             Some (fx, x, ''Original'')"
    unfolding rb b4 by (simp add: pending_tuple_def)
qed

text \<open>
  Claim C9. Two garments are clicked, in either order, while neither is active and the
  panel is not loading, and both acquisitions resolve. Whichever of the two settles last
  decides the pending selection: its file, its item, and the color Original. In general,
  a resolving acquisition overwrites the pending selection whatever the state before it.
\<close>
theorem last_resolved_wins:
  assumes "activeTab (panel sys) = Garments"
    and "\<not> isLoading (props sys)"
    and "a \<in> set (wardrobe (props sys))" and "b \<in> set (wardrobe (props sys))"
    and "item_id a \<notin> set (activeGarmentIds (props sys))"
    and "item_id b \<notin> set (activeGarmentIds (props sys))"
    and "snd (urlToFile br (item_url a) (item_name a)) = Resolved fa"
    and "snd (urlToFile br (item_url b) (item_name b)) = Resolved fb"
    and "n = length (inflight sys)"
  shows "pending_tuple (panel (fst (run br sys
           [GarmentClick a, GarmentClick b, AcquisitionSettles n, AcquisitionSettles n]))) =
             Some (fb, b, ''Original'')
       \<and> pending_tuple (panel (fst (run br sys
           [GarmentClick a, GarmentClick b, AcquisitionSettles (Suc n), AcquisitionSettles n]))) =
             Some (fa, a, ''Original'')
       \<and> pending_tuple (panel (fst (run br sys
           [GarmentClick b, GarmentClick a, AcquisitionSettles n, AcquisitionSettles n]))) =
             Some (fa, a, ''Original'')
       \<and> pending_tuple (panel (fst (run br sys
           [GarmentClick b, GarmentClick a, AcquisitionSettles (Suc n), AcquisitionSettles n]))) =
             Some (fb, b, ''Original'')
       \<and> pending_tuple (fst (handleGarmentClick_resume
            (fst (handleGarmentClick_resume s a (Resolved fa))) b (Resolved fb))) =
             pending_tuple (fst (handleGarmentClick_resume s' b (Resolved fb)))"
proof -
  note ab = last_settled_wins [OF assms(1) assms(2) assms(3) assms(4) assms(5) assms(6) assms(7) assms(8) assms(9)]
  note ba = last_settled_wins [OF assms(1) assms(2) assms(4) assms(3) assms(6) assms(5) assms(8) assms(7) assms(9)]
  have h: "pending_tuple (fst (handleGarmentClick_resume
            (fst (handleGarmentClick_resume s a (Resolved fa))) b (Resolved fb))) =
             pending_tuple (fst (handleGarmentClick_resume s' b (Resolved fb)))"
    by (simp add: resume_resolved pending_tuple_def)
  show ?thesis using ab ba h by blast
qed

section \<open>The error message\<close>

lemma step_clears_error:
  assumes "error (panel sys) \<noteq> None"
    and "error (panel (fst (step br sys ev))) = None"
  shows "\<exists>item. ev = GarmentClick item \<and> \<not> isLoading (props sys)
            \<and> item_id item \<notin> set (activeGarmentIds (props sys))"
  using assms unfolding panel_step
  by (cases ev)
     (auto simp: handler_defs Let_def
        split: prod.splits option.splits list.splits promise.splits if_splits)

lemma file_change_keeps_error:
  "error (fst (handleFileChange br now s files)) = None \<Longrightarrow> error s = None"
  by (auto simp: handleFileChange_def Let_def split: option.splits list.splits if_splits)

text \<open>
  Claim C10. An event that takes the panel from an error message to none is a garment
  click that passes the guard, and such a click always clears the message. handleFileChange
  never clears it: with an accepted image file it leaves the error as it was while the
  color sub-view becomes present. So after a rejected upload, an accepted upload shows the
  color sub-view with the validation error still displayed, whereas a garment click on an
  item that is not active, while not loading, removes it.
\<close>
theorem only_garment_click_clears_error:
  "(error (panel sys) \<noteq> None \<and> error (panel (fst (step br sys ev))) = None \<longrightarrow>
      (\<exists>item. ev = GarmentClick item \<and> \<not> isLoading (props sys)
         \<and> item_id item \<notin> set (activeGarmentIds (props sys))))
 \<and> (\<not> isLoading p \<and> item_id item \<notin> set (activeGarmentIds p) \<longrightarrow>
      error (fst (handleGarmentClick br p s item)) = None
    \<and> \<not> error_displayed (fst (handleGarmentClick br p s item)))
 \<and> (error (fst (handleFileChange br now s files)) = None \<longrightarrow> error s = None)
 \<and> (files = Some (good # rest) \<and> startsWith (file_type good) ''image/'' \<longrightarrow>
      error (fst (handleFileChange br now s files)) = error s
    \<and> color_view_present (fst (handleFileChange br now s files)))
 \<and> (bad_files = Some (bad # others) \<and> \<not> startsWith (file_type bad) ''image/''
      \<and> files = Some (good # rest) \<and> startsWith (file_type good) ''image/'' \<longrightarrow>
      (let s1 = fst (handleFileChange br earlier s bad_files);
           s2 = fst (handleFileChange br now s1 files)
       in error s2 = Some ''Please select an image file.''
        \<and> error_displayed s2 \<and> color_view_present s2
        \<and> (\<not> isLoading p \<and> item_id item \<notin> set (activeGarmentIds p) \<longrightarrow>
             \<not> error_displayed (fst (handleGarmentClick br p s1 item)))))"
proof -
  have c1: "error (panel sys) \<noteq> None \<and> error (panel (fst (step br sys ev))) = None \<longrightarrow>
      (\<exists>item. ev = GarmentClick item \<and> \<not> isLoading (props sys)
         \<and> item_id item \<notin> set (activeGarmentIds (props sys)))"
    using step_clears_error by blast
  have c2: "\<not> isLoading p \<and> item_id item \<notin> set (activeGarmentIds p) \<longrightarrow>
      error (fst (handleGarmentClick br p s0 item)) = None
    \<and> \<not> error_displayed (fst (handleGarmentClick br p s0 item))" for s0
    by (simp add: handleGarmentClick_def error_displayed_def)
  have c3: "error (fst (handleFileChange br now s files)) = None \<longrightarrow> error s = None"
    using file_change_keeps_error by blast
  have c4: "files = Some (good # rest) \<and> startsWith (file_type good) ''image/'' \<longrightarrow>
      error (fst (handleFileChange br now s0 files)) = error s0
    \<and> color_view_present (fst (handleFileChange br now s0 files))" for s0
    by (simp add: handleFileChange_def Let_def color_view_present_def)
  have c5: "bad_files = Some (bad # others) \<and> \<not> startsWith (file_type bad) ''image/'' \<longrightarrow>
      error (fst (handleFileChange br earlier s bad_files)) = Some ''Please select an image file.''"
    by (simp add: handleFileChange_def)
  have c6: "error s0 = Some ''Please select an image file.'' \<Longrightarrow> error_displayed s0" for s0
    by (simp add: error_displayed_def)
  show ?thesis
    unfolding Let_def using c1 c2 c3 c4 c5 c6 by metis
qed


section \<open>Presses on an exiting view\<close>

text \<open>
  While a view exits, its buttons act with the render it exits with: Apply calls
  \<open>onGarmentSelect\<close> with the tuple of that render, and a submission of the save form
  calls \<open>onSaveLook\<close> with its name.
\<close>

lemma apply_on_exiting_view:
  assumes "\<not> color_view_present (panel sys)"
    and "color_view_exiting sys = Some r"
    and "pendingFile r = Some f" and "selectedGarmentForColor r = Some i"
  shows "snd (step br sys ApplyClick) = [OnGarmentSelect f i (selectedColor r)]"
  using assms by (simp add: snd_step color_view_closure_def handleApplyGarment_def)

lemma submit_on_exiting_modal:
  assumes "\<not> isSaveModalOpen (panel sys)"
    and "save_modal_exiting sys = Some r"
    and "trim (newLookName r) \<noteq> []"
  shows "snd (step br sys SaveSubmit) = [PreventDefault, OnSaveLook (trim (newLookName r))]"
  using assms
  by (simp add: snd_step save_modal_closure_def submit_disabled_def handleSaveSubmit_def)

section \<open>The theorems at concrete inputs\<close>

lemma demo_picking_eq:
  "demo_picking =
     \<lparr>panel = \<lparr>error = None, activeTab = Garments, isSaveModalOpen = False, newLookName = [],
                selectedGarmentForColor = Some shirt, selectedColor = ''Red'',
                pendingFile = Some shirt_file\<rparr>,
      props = demo_props, inflight = [], color_view_exiting = None, save_modal_exiting = None\<rparr>"
  by (simp add: demo_picking_def initial_system_def initial_panel_def demo_props_def
        handleGarmentClick_def handleGarmentClick_resume_def urlToFile_def demo_browser_def
        shirt_def jacket_def coat_def shirt_file_def red_def COLORS_def view_defs)

lemma demo_cancelled_eq:
  "demo_cancelled =
     \<lparr>panel = \<lparr>error = None, activeTab = Garments, isSaveModalOpen = False, newLookName = [],
                selectedGarmentForColor = None, selectedColor = ''Red'', pendingFile = None\<rparr>,
      props = demo_props, inflight = [], color_view_exiting = Some (panel demo_picking),
      save_modal_exiting = None\<rparr>"
  unfolding demo_cancelled_def
  by (simp add: demo_picking_eq handleCancelColorSelection_def view_defs)

lemma demo_cancelled_run:
  "demo_cancelled =
     fst (run demo_browser (initial_system demo_props)
            [GarmentClick shirt, AcquisitionSettles 0, SwatchClick red, CancelClick])"
  using run_snoc [of demo_browser "initial_system demo_props"
          "[GarmentClick shirt, AcquisitionSettles 0, SwatchClick red]" CancelClick]
  by (simp only: append_Cons append_Nil demo_cancelled_def demo_picking_def)

theorem confirm_applies_once_witness:
  "step demo_browser demo_picking ApplyClick =
     (demo_picking\<lparr>panel := (panel demo_picking)\<lparr>pendingFile := None,
                       selectedGarmentForColor := None, selectedColor := ''Original''\<rparr>,
                    color_view_exiting := Some (panel demo_picking)\<rparr>,
      [OnGarmentSelect shirt_file shirt ''Red''])
 \<and> ''Red'' \<in> set (map swatch_name COLORS)"
proof -
  have h1: "pendingFile (panel demo_picking) = Some shirt_file" by (simp add: demo_picking_eq)
  have h2: "selectedGarmentForColor (panel demo_picking) = Some shirt"
    by (simp add: demo_picking_eq)
  have h3: "selectedColor (panel demo_picking) = ''Red''" by (simp add: demo_picking_eq)
  have r: "demo_picking = fst (run demo_browser (initial_system demo_props)
            [GarmentClick shirt, AcquisitionSettles 0, SwatchClick red])"
    by (rule demo_picking_def)
  show ?thesis
    using confirm_applies_once [OF h1 h2 h3, of demo_browser demo_props
            "[GarmentClick shirt, AcquisitionSettles 0, SwatchClick red]"] r
    by blast
qed

text \<open>
  The claim as stated, that the color sub-view is visible only when a candidate item is
  set, fails after Cancel: the candidate item is cleared, the sub-view is still mounted
  while it exits, and its Apply button still calls \<open>onGarmentSelect\<close>.
\<close>
theorem exiting_view_counterexample:
  "demo_cancelled =
     fst (run demo_browser (initial_system demo_props)
            [GarmentClick shirt, AcquisitionSettles 0, SwatchClick red, CancelClick])
 \<and> selectedGarmentForColor (panel demo_cancelled) = None
 \<and> color_view_mounted demo_cancelled
 \<and> snd (step demo_browser demo_cancelled ApplyClick) = [OnGarmentSelect shirt_file shirt ''Red'']"
proof -
  have a: "selectedGarmentForColor (panel demo_cancelled) = None"
    by (simp add: demo_cancelled_eq)
  have b: "color_view_mounted demo_cancelled"
    by (simp add: demo_cancelled_eq color_view_mounted_def color_view_closure_def
          color_view_present_def)
  have c: "snd (step demo_browser demo_cancelled ApplyClick) =
             [OnGarmentSelect shirt_file shirt ''Red'']"
    using apply_on_exiting_view [of demo_cancelled "panel demo_picking" shirt_file shirt
            demo_browser]
    by (simp add: demo_cancelled_eq demo_picking_eq color_view_present_def)
  show ?thesis using demo_cancelled_run a b c by blast
qed

theorem pending_tuple_invariant_witness:
  "color_view_mounted demo_picking
 \<and> color_view_exiting demo_picking = None
 \<and> pending_tuple (panel demo_picking) = Some (shirt_file, shirt, ''Red'')
 \<and> color_view_exiting demo_cancelled = Some (panel demo_picking)
 \<and> pending_tuple (panel demo_cancelled) = None
 \<and> \<not> color_view_mounted (fst (step demo_browser demo_cancelled ColorViewExitComplete))
 \<and> pending_tuple (panel (fst (step demo_browser demo_picking ApplyClick))) = None
 \<and> pending_tuple (panel (fst (step demo_browser demo_picking CancelClick))) = None"
proof -
  have s: "selectedGarmentForColor (panel demo_picking) \<noteq> None" by (simp add: demo_picking_eq)
  have t: "pending_tuple (panel demo_picking) = Some (shirt_file, shirt, ''Red'')"
    by (simp add: demo_picking_eq pending_tuple_def)
  have n: "selectedGarmentForColor (panel demo_cancelled) = None"
    by (simp add: demo_cancelled_eq)
  have m: "color_view_mounted demo_cancelled"
    by (simp add: demo_cancelled_eq color_view_mounted_def color_view_closure_def
          color_view_present_def)
  have x: "color_view_exiting demo_cancelled = Some (panel demo_picking)"
    by (simp add: demo_cancelled_eq)
  have u: "pending_tuple (panel demo_cancelled) = None"
    by (simp add: demo_cancelled_eq pending_tuple_def)
  note p = pending_tuple_invariant [of demo_browser demo_props
            "[GarmentClick shirt, AcquisitionSettles 0, SwatchClick red]",
            unfolded Let_def demo_picking_def [symmetric]]
  note c = pending_tuple_invariant [of demo_browser demo_props
            "[GarmentClick shirt, AcquisitionSettles 0, SwatchClick red, CancelClick]",
            unfolded Let_def demo_cancelled_run [symmetric]]
  show ?thesis using p c s t n m x u by blast
qed

theorem guarded_click_is_noop_witness:
  "step demo_browser (initial_system demo_props) (GarmentClick coat) =
     (initial_system demo_props, [])
 \<and> step demo_browser (initial_system (demo_props\<lparr>isLoading := True\<rparr>)) (GarmentClick shirt) =
     (initial_system (demo_props\<lparr>isLoading := True\<rparr>), [])"
proof -
  have h1: "isLoading (props (initial_system demo_props))
          \<or> item_id coat \<in> set (activeGarmentIds (props (initial_system demo_props)))"
    by (simp add: initial_system_def demo_props_def coat_def)
  have h2: "isLoading (props (initial_system (demo_props\<lparr>isLoading := True\<rparr>)))
          \<or> item_id shirt \<in> set (activeGarmentIds (props (initial_system (demo_props\<lparr>isLoading := True\<rparr>))))"
    by (simp add: initial_system_def)
  show ?thesis
    using guarded_click_is_noop [OF h1, of demo_browser]
      guarded_click_is_noop [OF h2, of demo_browser]
    by blast
qed

theorem cancel_discards_pending_witness:
  "step demo_browser demo_picking CancelClick =
     (demo_picking\<lparr>panel := (panel demo_picking)\<lparr>pendingFile := None,
                       selectedGarmentForColor := None\<rparr>,
                    color_view_exiting := Some (panel demo_picking)\<rparr>, [])
 \<and> selectedColor (panel (fst (step demo_browser demo_picking CancelClick))) = ''Red''"
proof -
  have h1: "selectedGarmentForColor (panel demo_picking) = Some shirt"
    by (simp add: demo_picking_eq)
  have h2: "pendingFile (panel demo_picking) = Some shirt_file" by (simp add: demo_picking_eq)
  have c: "selectedColor (panel demo_picking) = ''Red''" by (simp add: demo_picking_eq)
  show ?thesis
    using cancel_discards_pending [OF h1 h2, of demo_browser] c by simp
qed

lemma trim_summer_vibes: "trim '' Summer Vibes '' = ''Summer Vibes''"
  by (simp add: trim_def js_whitespace_def)

theorem save_submit_witness:
  "step demo_browser demo_save_dialog SaveSubmit =
     (demo_save_dialog\<lparr>panel := (panel demo_save_dialog)\<lparr>newLookName := [],
                           isSaveModalOpen := False, activeTab := Looks\<rparr>,
                        save_modal_exiting := Some (panel demo_save_dialog)\<rparr>,
      [PreventDefault, OnSaveLook ''Summer Vibes''])
 \<and> submit_disabled (panel demo_blank_dialog)
 \<and> step demo_browser demo_blank_dialog SaveSubmit = (demo_blank_dialog, [])
 \<and> handleSaveSubmit (panel demo_blank_dialog) (panel demo_blank_dialog) =
     (panel demo_blank_dialog, [PreventDefault])"
proof -
  have n: "newLookName (panel demo_save_dialog) = '' Summer Vibes ''"
    by (simp add: demo_save_dialog_def)
  have h1: "\<not> (\<forall>c\<in>set (newLookName (panel demo_save_dialog)). js_whitespace c)"
    unfolding n by (simp add: js_whitespace_def)
  have o: "isSaveModalOpen (panel demo_save_dialog)" by (simp add: demo_save_dialog_def)
  have h2: "\<forall>c\<in>set (newLookName (panel demo_blank_dialog)). js_whitespace c"
    by (simp add: demo_blank_dialog_def js_whitespace_def)
  have o2: "isSaveModalOpen (panel demo_blank_dialog)" by (simp add: demo_blank_dialog_def)
  show ?thesis
    using save_submit [of demo_save_dialog demo_browser]
      save_submit [of demo_blank_dialog demo_browser] h1 h2 o o2
    unfolding n trim_summer_vibes
    by blast
qed

theorem custom_upload_witness:
  "handleFileChange demo_browser 1700000000000 initial_panel (Some [txt_file]) =
     (initial_panel\<lparr>error := Some ''Please select an image file.''\<rparr>, [])
 \<and> handleFileChange demo_browser 1700000000000 initial_panel (Some [png_file]) =
     (initial_panel\<lparr>pendingFile := Some png_file,
        selectedGarmentForColor :=
          Some \<lparr>item_id = ''custom-1700000000000'', item_name = ''hat.png'',
                item_url = ''blob:hat.png''\<rparr>,
        selectedColor := ''Original''\<rparr>,
      [CreateObjectURL png_file])
 \<and> panel (fst (step demo_browser (initial_system demo_props)
      (FileChange (Some [png_file]) 1700000000000))) =
     fst (handleFileChange demo_browser 1700000000000 initial_panel (Some [png_file]))
 \<and> color_view_mounted (fst (step demo_browser (initial_system demo_props)
      (FileChange (Some [png_file]) 1700000000000)))"
proof -
  have f1: "Some [txt_file] = Some (txt_file # [])" by simp
  have f2: "Some [png_file] = Some (png_file # [])" by simp
  have t1: "\<not> startsWith (file_type txt_file) ''image/''"
    by (simp add: startsWith_def txt_file_def)
  have t2: "startsWith (file_type png_file) ''image/''"
    by (simp add: startsWith_def png_file_def)
  have p: "panel (initial_system demo_props) = initial_panel" by (simp add: initial_system_def)
  have g: "activeTab (panel (initial_system demo_props)) = Garments
         \<and> \<not> isLoading (props (initial_system demo_props))"
    by (simp add: initial_system_def initial_panel_def demo_props_def)
  have i: "''custom-'' @ show_int 1700000000000 = ''custom-1700000000000''"
    by (simp add: show_int_def digit_char_def)
  have n: "file_name png_file = ''hat.png''" by (simp add: png_file_def)
  have u: "createObjectURL demo_browser png_file = ''blob:hat.png''"
    by (simp add: demo_browser_def png_file_def)
  note a = custom_upload [OF f1, of demo_browser 1700000000000 "initial_system demo_props"]
  note b = custom_upload [OF f2, of demo_browser 1700000000000 "initial_system demo_props"]
  show ?thesis
    using a b t1 t2 g
    unfolding p i n u
    by blast
qed

theorem acquisition_success_witness:
  "snd (urlToFile demo_browser ''ok.png'' ''Shirt'') = Resolved shirt_file
 \<and> snd (urlToFile demo_browser ''ok2.png'' ''Jacket'') = Resolved jacket_file
 \<and> ToBlob ''image/png'' \<in> set (fst (urlToFile demo_browser ''ok.png'' ''Shirt''))"
proof -
  have a1: "load_image demo_browser ''ok.png'' = OnLoad 2 3" by (simp add: demo_browser_def)
  have a2: "getContext_2d demo_browser 2 3 = Returns True" by (simp add: demo_browser_def)
  have a3: "drawImage demo_browser ''ok.png'' 2 3 = Returns ()" by (simp add: demo_browser_def)
  have a4: "toBlob demo_browser ''ok.png'' 2 3 ''image/png'' =
              Returns (Some \<lparr>blob_type = ''image/png'', blob_bytes = [2, 3]\<rparr>)"
    by (simp add: demo_browser_def)
  have b1: "load_image demo_browser ''ok2.png'' = OnLoad 4 4" by (simp add: demo_browser_def)
  have b2: "getContext_2d demo_browser 4 4 = Returns True" by (simp add: demo_browser_def)
  have b3: "drawImage demo_browser ''ok2.png'' 4 4 = Returns ()" by (simp add: demo_browser_def)
  have b4: "toBlob demo_browser ''ok2.png'' 4 4 ''image/png'' =
              Returns (Some \<lparr>blob_type = [], blob_bytes = [4, 4]\<rparr>)"
    by (simp add: demo_browser_def)
  show ?thesis
    using acquisition_success [OF a1 a2 a3 a4, of "''Shirt''"]
      acquisition_success [OF b1 b2 b3 b4, of "''Jacket''"]
    by (simp add: shirt_file_def jacket_file_def)
qed

theorem acquisition_outcomes_witness:
  "(\<exists>e. snd (urlToFile demo_browser ''bad.png'' ''Shirt'') =
       Rejected (''Could not load image from URL for canvas conversion. Error: '' @ e))
 \<and> snd (urlToFile demo_browser ''empty.svg'' ''Shirt'') = Rejected ''Could not get canvas context.''
 \<and> snd (urlToFile demo_browser ''wide.png'' ''Shirt'') = Rejected ''Canvas toBlob failed.''
 \<and> (\<exists>f. snd (urlToFile demo_browser ''ok.png'' ''Shirt'') = Resolved f)
 \<and> snd (urlToFile demo_browser ''hung.png'' ''Shirt'') = Pending
 \<and> snd (urlToFile demo_browser ''broken.png'' ''Shirt'') = Pending
 \<and> snd (urlToFile demo_browser ''tainted.png'' ''Shirt'') = Pending"
proof -
  have l1: "load_image demo_browser ''bad.png'' = OnError ''[object Event]''"
    by (simp add: demo_browser_def)
  have l2: "load_image demo_browser ''empty.svg'' = OnLoad 0 0
          \<and> getContext_2d demo_browser 0 0 = Returns False"
    by (simp add: demo_browser_def)
  have l3: "load_image demo_browser ''wide.png'' = OnLoad 9 1
          \<and> getContext_2d demo_browser 9 1 = Returns True
          \<and> drawImage demo_browser ''wide.png'' 9 1 = Returns ()
          \<and> toBlob demo_browser ''wide.png'' 9 1 ''image/png'' = Returns None"
    by (simp add: demo_browser_def)
  have l4: "load_image demo_browser ''ok.png'' = OnLoad 2 3
          \<and> getContext_2d demo_browser 2 3 = Returns True
          \<and> drawImage demo_browser ''ok.png'' 2 3 = Returns ()
          \<and> toBlob demo_browser ''ok.png'' 2 3 ''image/png'' =
              Returns (Some \<lparr>blob_type = ''image/png'', blob_bytes = [2, 3]\<rparr>)"
    by (simp add: demo_browser_def)
  have l5: "load_image demo_browser ''hung.png'' = NoEvent" by (simp add: demo_browser_def)
  have l6: "load_image demo_browser ''broken.png'' = OnLoad 5 5
          \<and> getContext_2d demo_browser 5 5 = Returns True
          \<and> drawImage demo_browser ''broken.png'' 5 5 = Throws"
    by (simp add: demo_browser_def)
  have l7: "load_image demo_browser ''tainted.png'' = OnLoad 6 6
          \<and> getContext_2d demo_browser 6 6 = Returns True
          \<and> drawImage demo_browser ''tainted.png'' 6 6 = Returns ()
          \<and> toBlob demo_browser ''tainted.png'' 6 6 ''image/png'' = Throws"
    by (simp add: demo_browser_def)
  have e1: "\<exists>e. snd (urlToFile demo_browser ''bad.png'' ''Shirt'') =
              Rejected (''Could not load image from URL for canvas conversion. Error: '' @ e)"
    using acquisition_outcomes [of demo_browser "''bad.png''" "''Shirt''", THEN conjunct1] l1
    by simp
  have e2: "snd (urlToFile demo_browser ''empty.svg'' ''Shirt'') = Rejected ''Could not get canvas context.''"
    using acquisition_outcomes [of demo_browser "''empty.svg''" "''Shirt''",
            THEN conjunct2, THEN conjunct1] l2
    by simp
  have e3: "snd (urlToFile demo_browser ''wide.png'' ''Shirt'') = Rejected ''Canvas toBlob failed.''"
    using acquisition_outcomes [of demo_browser "''wide.png''" "''Shirt''",
            THEN conjunct2, THEN conjunct2, THEN conjunct1] l3
    by simp
  have e4: "\<exists>f. snd (urlToFile demo_browser ''ok.png'' ''Shirt'') = Resolved f"
    using acquisition_outcomes [of demo_browser "''ok.png''" "''Shirt''",
            THEN conjunct2, THEN conjunct2, THEN conjunct2, THEN conjunct1] l4
    by simp
  have e5: "snd (urlToFile demo_browser ''hung.png'' ''Shirt'') = Pending"
    using acquisition_outcomes [of demo_browser "''hung.png''" "''Shirt''",
            THEN conjunct2, THEN conjunct2, THEN conjunct2, THEN conjunct2, THEN conjunct1] l5
    by simp
  have e6: "snd (urlToFile demo_browser ''broken.png'' ''Shirt'') = Pending"
    using acquisition_outcomes [of demo_browser "''broken.png''" "''Shirt''",
            THEN conjunct2, THEN conjunct2, THEN conjunct2, THEN conjunct2, THEN conjunct1] l6
    by simp
  have e7: "snd (urlToFile demo_browser ''tainted.png'' ''Shirt'') = Pending"
    using acquisition_outcomes [of demo_browser "''tainted.png''" "''Shirt''",
            THEN conjunct2, THEN conjunct2, THEN conjunct2, THEN conjunct2, THEN conjunct1] l7
    by simp
  show ?thesis using e1 e2 e3 e4 e5 e6 e7 by blast
qed

theorem last_resolved_wins_witness:
  "pending_tuple (panel (fst (run demo_browser (initial_system demo_props)
     [GarmentClick shirt, GarmentClick jacket, AcquisitionSettles 0, AcquisitionSettles 0]))) =
       Some (jacket_file, jacket, ''Original'')
 \<and> pending_tuple (panel (fst (run demo_browser (initial_system demo_props)
     [GarmentClick shirt, GarmentClick jacket, AcquisitionSettles (Suc 0), AcquisitionSettles 0]))) =
       Some (shirt_file, shirt, ''Original'')
 \<and> pending_tuple (panel (fst (run demo_browser (initial_system demo_props)
     [GarmentClick jacket, GarmentClick shirt, AcquisitionSettles 0, AcquisitionSettles 0]))) =
       Some (shirt_file, shirt, ''Original'')
 \<and> pending_tuple (panel (fst (run demo_browser (initial_system demo_props)
     [GarmentClick jacket, GarmentClick shirt, AcquisitionSettles (Suc 0), AcquisitionSettles 0]))) =
       Some (jacket_file, jacket, ''Original'')"
proof -
  have h1: "activeTab (panel (initial_system demo_props)) = Garments"
    by (simp add: initial_system_def initial_panel_def)
  have h2: "\<not> isLoading (props (initial_system demo_props))"
    by (simp add: initial_system_def demo_props_def)
  have h3: "shirt \<in> set (wardrobe (props (initial_system demo_props)))"
    by (simp add: initial_system_def demo_props_def)
  have h4: "jacket \<in> set (wardrobe (props (initial_system demo_props)))"
    by (simp add: initial_system_def demo_props_def)
  have h5: "item_id shirt \<notin> set (activeGarmentIds (props (initial_system demo_props)))"
    by (simp add: initial_system_def demo_props_def shirt_def)
  have h6: "item_id jacket \<notin> set (activeGarmentIds (props (initial_system demo_props)))"
    by (simp add: initial_system_def demo_props_def jacket_def)
  have h7: "snd (urlToFile demo_browser (item_url shirt) (item_name shirt)) = Resolved shirt_file"
    by (simp add: urlToFile_def demo_browser_def shirt_def shirt_file_def)
  have h8: "snd (urlToFile demo_browser (item_url jacket) (item_name jacket)) = Resolved jacket_file"
    by (simp add: urlToFile_def demo_browser_def jacket_def jacket_file_def)
  have h9: "0 = length (inflight (initial_system demo_props))"
    by (simp add: initial_system_def)
  show ?thesis
    using last_resolved_wins [OF h1 h2 h3 h4 h5 h6 h7 h8 h9] by blast
qed

lemma demo_rejected_eq:
  "demo_rejected =
     \<lparr>panel = initial_panel\<lparr>error := Some ''Please select an image file.''\<rparr>,
      props = demo_props, inflight = [], color_view_exiting = None, save_modal_exiting = None\<rparr>"
  by (simp add: demo_rejected_def initial_system_def initial_panel_def demo_props_def
        handleFileChange_def startsWith_def txt_file_def view_defs)

theorem only_garment_click_clears_error_witness:
  "error (panel demo_rejected) = Some ''Please select an image file.''
 \<and> error (panel (fst (step demo_browser demo_rejected (GarmentClick shirt)))) = None
 \<and> error (fst (handleFileChange demo_browser 7 (panel demo_rejected) (Some [png_file]))) =
     Some ''Please select an image file.''
 \<and> color_view_present (fst (handleFileChange demo_browser 7 (panel demo_rejected) (Some [png_file])))
 \<and> error_displayed (fst (handleFileChange demo_browser 7 (panel demo_rejected) (Some [png_file])))
 \<and> \<not> error_displayed (fst (handleGarmentClick demo_browser demo_props (panel demo_rejected) shirt))"
proof -
  have e: "error (panel demo_rejected) = Some ''Please select an image file.''"
    by (simp add: demo_rejected_eq)
  have g: "error (panel (fst (step demo_browser demo_rejected (GarmentClick shirt)))) = None"
    by (simp add: panel_step demo_rejected_eq initial_panel_def demo_props_def
          handleGarmentClick_def shirt_def)
  have p: "\<not> isLoading demo_props \<and> item_id shirt \<notin> set (activeGarmentIds demo_props)"
    by (simp add: demo_props_def shirt_def)
  have f: "Some [png_file] = Some (png_file # []) \<and> startsWith (file_type png_file) ''image/''"
    by (simp add: startsWith_def png_file_def)
  have b: "Some [txt_file] = Some (txt_file # []) \<and> \<not> startsWith (file_type txt_file) ''image/''"
    by (simp add: startsWith_def txt_file_def)
  have s1: "fst (handleFileChange demo_browser 5 initial_panel (Some [txt_file])) =
              panel demo_rejected"
    by (simp add: demo_rejected_eq handleFileChange_def startsWith_def txt_file_def)
  have n: "error (fst (handleFileChange demo_browser 7 initial_panel (Some [png_file]))) = None"
    using f by (simp add: handleFileChange_def initial_panel_def)
  show ?thesis
    using only_garment_click_clears_error [where sys = demo_rejected and br = demo_browser
        and ev = "GarmentClick shirt" and p = demo_props and item = shirt
        and s = initial_panel and now = 7 and files = "Some [png_file]" and good = png_file
        and rest = "[]" and bad_files = "Some [txt_file]" and bad = txt_file and others = "[]"
        and earlier = 5]
      e g p f b n
    unfolding Let_def s1
    by blast
qed

end
